theory Spec2Isabelle
  imports Main "HOL-Library.AList"
begin

section \<open>Data model\<close>

text \<open>
  The development embeds \<^verbatim>\<open>packages/discord.js/src/managers/ThreadManager.js\<close>.
  JavaScript objects are mutable and shared, so thread entities live in an object store:
  a \<open>ref\<close> is an object identity, \<open>heap\<close> gives the fields of the object behind it, and
  caches and result collections hold references. A \<^verbatim>\<open>Collection\<close> (a JavaScript
  \<^verbatim>\<open>Map\<close>) is an association list in insertion order: \<^verbatim>\<open>get\<close> is \<open>map_of\<close>,
  \<^verbatim>\<open>set\<close> is \<open>AList.update\<close> (replace in place, or append).
\<close>

type_synonym ref = nat
type_synonym snowflake = string
type_synonym 'v collection = "(snowflake \<times> 'v) list"

text \<open>A raw thread-member payload; \<open>member_id\<close> is its \<^verbatim>\<open>id\<close> field, the thread's id.\<close>

record raw_member =
  member_id :: snowflake
  user_id :: snowflake

text \<open>
  The fields of a \<^verbatim>\<open>ThreadChannel\<close> that the manager reads: \<^verbatim>\<open>id\<close>,
  \<^verbatim>\<open>parentId\<close>, \<^verbatim>\<open>archivedAt\<close> (a valid time value in milliseconds, or absent) and
  the member data attached to it.
\<close>

record thread =
  thread_id :: snowflake
  parentId :: "snowflake option"
  archivedAt :: "int option"
  members :: "raw_member list"

text \<open>A raw thread payload and the raw response of a thread listing.\<close>

record raw_thread =
  raw_id :: snowflake
  parent_id :: "snowflake option"
  archive_timestamp :: "int option"

record raw_response =
  raw_threads :: "raw_thread list"
  raw_members :: "raw_member list"
  has_more :: "bool option"

text \<open>The values a caller may pass where the code inspects the JavaScript type.
  \<open>JNumber\<close> carries an integral Number; \<^verbatim>\<open>NaN\<close> and fractions are outside the model.\<close>

datatype jsval =
    JUndefined
  | JNull
  | JBool bool
  | JNumber int
  | JString string
  | JObject "(string \<times> jsval) list"

datatype js_type = TUndefined | TObject | TBoolean | TNumber | TString

fun typeof :: "jsval \<Rightarrow> js_type" where
  "typeof JUndefined = TUndefined"
| "typeof JNull = TObject"
| "typeof (JBool _) = TBoolean"
| "typeof (JNumber _) = TNumber"
| "typeof (JString _) = TString"
| "typeof (JObject _) = TObject"

fun truthy :: "jsval \<Rightarrow> bool" where
  "truthy JUndefined = False"
| "truthy JNull = False"
| "truthy (JBool b) = b"
| "truthy (JNumber n) = (n \<noteq> 0)"
| "truthy (JString s) = (s \<noteq> [])"
| "truthy (JObject _) = True"

text \<open>The nullish coalescing operator \<^verbatim>\<open>a ?? b\<close>.\<close>

fun nullish_or :: "jsval \<Rightarrow> jsval \<Rightarrow> jsval" where
  "nullish_or JUndefined d = d"
| "nullish_or JNull d = d"
| "nullish_or v d = v"

text \<open>Truthiness of a string-or-null value such as the result of \<^verbatim>\<open>resolveId\<close>.\<close>

fun truthy_str :: "string option \<Rightarrow> bool" where
  "truthy_str None = False"
| "truthy_str (Some s) = (s \<noteq> [])"

subsection \<open>Routes, requests and errors\<close>

text \<open>The \<^verbatim>\<open>Routes\<close> helpers of discord-api-types, kept symbolic.\<close>

datatype route =
    Routes_threads snowflake "snowflake option"
  | Routes_channelThreads snowflake string
  | Routes_channelJoinedArchivedThreads snowflake
  | Routes_guildActiveThreads snowflake

datatype qvalue = QNumber int | QString string

type_synonym query = "string \<rightharpoonup> qvalue"

record thread_body =
  body_name :: "string option"
  auto_archive_duration :: "int option"
  body_type :: jsval
  body_invitable :: "bool option"
  rate_limit_per_user :: "int option"

datatype request =
    Get route query
  | Post route thread_body "string option"

datatype js_error =
    INVALID_TYPE string string
  | TransportError string

subsection \<open>Client state\<close>

text \<open>
  \<open>channels_cache\<close> is \<^verbatim>\<open>client.channels.cache\<close>, \<open>threads_cache\<close> is the cache of the
  thread manager under study, \<open>requests\<close> logs every call made through
  \<^verbatim>\<open>client.rest\<close>, and \<open>next_ref\<close> is the identity the next new object gets.
\<close>

record client =
  heap :: "ref \<Rightarrow> thread"
  next_ref :: ref
  channels_cache :: "ref collection"
  threads_cache :: "ref collection"
  requests :: "request list"

text \<open>
  Every entry of the shared cache is an object that has been created, filed under its
  own id.
\<close>

definition wf_client :: "client \<Rightarrow> bool" where
  "wf_client st \<longleftrightarrow>
     (\<forall>(k, r) \<in> set (channels_cache st). r < next_ref st \<and> thread_id (heap st r) = k)"

section \<open>External collaborators\<close>

text \<open>
  What the manager calls but does not define: the JavaScript runtime's date functions
  (\<open>Date_parse\<close> gives the time value of a date string, \<open>None\<close> for \<^verbatim>\<open>NaN\<close>;
  \<open>toISOString\<close> formats a valid time value), the transport \<^verbatim>\<open>client.rest\<close>, the
  single-channel fetch \<^verbatim>\<open>client.channels.fetch\<close> and the creation action
  \<^verbatim>\<open>client.actions.ThreadCreate.handle\<close>. They are parameters of the model.
\<close>

record env =
  Date_parse :: "string \<Rightarrow> int option"
  toISOString :: "int \<Rightarrow> string"
  rest_get :: "route \<Rightarrow> query \<Rightarrow> js_error + raw_response"
  rest_post :: "route \<Rightarrow> thread_body \<Rightarrow> string option \<Rightarrow> js_error + raw_thread"
  channels_fetch :: "snowflake \<Rightarrow> bool \<Rightarrow> bool \<Rightarrow> client \<Rightarrow> (js_error + ref) \<times> client"
  ThreadCreate_handle :: "raw_thread \<Rightarrow> client \<Rightarrow> ref \<times> client"

text \<open>
  The parent channel \<^verbatim>\<open>this.channel\<close>: its id, its \<^verbatim>\<open>ChannelType\<close>, its guild's id,
  its default auto-archive duration and its message resolver
  \<^verbatim>\<open>this.channel.messages.resolveId\<close>.
\<close>

record channel =
  channel_id :: snowflake
  channel_type :: int
  guild_id :: snowflake
  defaultAutoArchiveDuration :: "int option"
  messages_resolveId :: "jsval \<Rightarrow> snowflake option"

text \<open>The members of the \<^verbatim>\<open>ChannelType\<close> enum of discord-api-types/v10 that the code names.\<close>

definition ChannelType_GuildNews :: int where
  "ChannelType_GuildNews = 5"

definition ChannelType_GuildNewsThread :: int where
  "ChannelType_GuildNewsThread = 10"

definition ChannelType_GuildPublicThread :: int where
  "ChannelType_GuildPublicThread = 11"

definition ChannelType_GuildPrivateThread :: int where
  "ChannelType_GuildPrivateThread = 12"

section \<open>ThreadManager._add\<close>


section \<open>Resolvers\<close>

text \<open>
  The \<^verbatim>\<open>before\<close> option is a \<^verbatim>\<open>DateResolvable|ThreadChannelResolvable\<close>: a
  \<^verbatim>\<open>ThreadChannel\<close> instance, or a \<^verbatim>\<open>Date\<close> (with its time value, \<open>None\<close> for an
  invalid date), a number (integral, a timestamp in milliseconds) or a string (a
  snowflake or a date string).
\<close>

datatype date_resolvable =
    DDate "int option"
  | DNumber int
  | DString string

datatype before_resolvable =
    BThread ref
  | BOther date_resolvable

definition is_digit :: "char \<Rightarrow> bool" where
  "is_digit c \<longleftrightarrow> c \<in> set ''0123456789''"

text \<open>The regular expression \<^verbatim>\<open>/^\d{16,19}$/\<close> on a string.\<close>

definition snowflake_re :: "string \<Rightarrow> bool" where
  "snowflake_re s \<longleftrightarrow> 16 \<le> length s \<and> length s \<le> 19 \<and> list_all is_digit s"

text \<open>
  \<^verbatim>\<open>/^\d{16,19}$/.test(String(before))\<close> for a value that is not a thread instance.
  The string form of an integral number below \<open>10^21\<close> is a decimal numeral with as
  many digits as the number has, so it consists of 16 to 19 digits exactly when the
  number is at least \<open>10^15\<close> and less than \<open>10^19\<close>; the string form of a
  \<^verbatim>\<open>Date\<close> contains letters.
\<close>

fun test_snowflake :: "date_resolvable \<Rightarrow> bool" where
  "test_snowflake (DString s) = snowflake_re s"
| "test_snowflake (DNumber n) = (10 ^ 15 \<le> n \<and> n < 10 ^ 19)"
| "test_snowflake (DDate _) = False"

text \<open>
  The time value of \<^verbatim>\<open>new Date(before)\<close>; \<open>None\<close> is an invalid date, on which
  \<^verbatim>\<open>toISOString()\<close> throws a \<^verbatim>\<open>RangeError\<close>. A number beyond 8.64e15 milliseconds
  is out of the range of \<^verbatim>\<open>Date\<close>.
\<close>

fun Date_value :: "env \<Rightarrow> date_resolvable \<Rightarrow> int option" where
  "Date_value e (DDate tv) = tv"
| "Date_value e (DNumber n) = (if \<bar>n\<bar> \<le> 8640000000000000 then Some n else None)"
| "Date_value e (DString s) = Date_parse e s"

text \<open>
  Modelled from the spec: \<^verbatim>\<open>resolve\<close> and \<^verbatim>\<open>resolveId\<close> are inherited from
  \<^verbatim>\<open>CachedManager\<close>, whose source is not part of the sources at hand. A resolvable is a
  live thread entity or a raw identifier string; a string is a raw identifier when it
  has 16 to 19 digits; anything else does not resolve (\<^verbatim>\<open>null\<close>). \<open>resolve\<close> gives the
  entity itself, or looks the identifier up in the manager's cache.
\<close>

fun resolveId :: "client \<Rightarrow> before_resolvable \<Rightarrow> snowflake option" where
  "resolveId st (BThread r) = Some (thread_id (heap st r))"
| "resolveId st (BOther (DString s)) = (if snowflake_re s then Some s else None)"
| "resolveId st (BOther _) = None"

fun resolve :: "client \<Rightarrow> before_resolvable \<Rightarrow> ref option" where
  "resolve st (BThread r) = Some r"
| "resolve st (BOther (DString s)) = map_of (threads_cache st) s"
| "resolve st (BOther _) = None"

section \<open>ThreadManager.create\<close>

text \<open>\<open>create_type\<close> is the option \<^verbatim>\<open>type\<close>; an omitted option is \<open>None\<close> or \<open>JUndefined\<close>.\<close>

record thread_create_options =
  name :: "string option"
  autoArchiveDuration :: "int option"
  startMessage :: jsval
  create_type :: jsval
  invitable :: "bool option"
  reason :: "string option"
  rateLimitPerUser :: "int option"

text \<open>
  Lines 112 to 133 of the source: everything \<^verbatim>\<open>create\<close> does before it awaits
  \<^verbatim>\<open>client.rest.post\<close>. The result is the thrown \<^verbatim>\<open>TypeError\<close>, or the route and the
  body of the request.
\<close>

definition create_request ::
  "channel \<Rightarrow> thread_create_options \<Rightarrow> js_error + (route \<times> thread_body)" where
  "create_request ch opts =
     (let type = create_type opts;
          autoArchiveDuration =
            (case autoArchiveDuration opts of
               None \<Rightarrow> defaultAutoArchiveDuration ch
             | Some d \<Rightarrow> Some d)
      in
      if truthy type \<and> typeof type \<noteq> TString \<and> typeof type \<noteq> TNumber
      then Inl (INVALID_TYPE ''type'' ''ThreadChannelType or Number'')
      else
        let resolvedType =
              (if channel_type ch = ChannelType_GuildNews
               then JNumber ChannelType_GuildNewsThread
               else JNumber ChannelType_GuildPublicThread);
            resolved =
              (if truthy (startMessage opts) then
                 (let startMessageId = messages_resolveId ch (startMessage opts) in
                  if \<not> truthy_str startMessageId
                  then Inl (INVALID_TYPE ''startMessage'' ''MessageResolvable'')
                  else Inr (startMessageId, resolvedType))
               else if channel_type ch \<noteq> ChannelType_GuildNews
               then Inr (None, nullish_or type resolvedType)
               else Inr (None, resolvedType))
        in
        case resolved of
          Inl err \<Rightarrow> Inl err
        | Inr (startMessageId, resolvedType) \<Rightarrow>
            Inr (Routes_threads (channel_id ch) startMessageId,
                 \<lparr>body_name = name opts,
                  auto_archive_duration = autoArchiveDuration,
                  body_type = resolvedType,
                  body_invitable =
                    (if resolvedType = JNumber ChannelType_GuildPrivateThread
                     then invitable opts else None),
                  rate_limit_per_user = rateLimitPerUser opts\<rparr>))"

text \<open>
  \<^verbatim>\<open>create\<close>: a thrown error leaves the client untouched; otherwise the request is
  issued (and logged), a transport error propagates, and the response goes to the
  creation action, which returns the thread.
\<close>

definition create ::
  "env \<Rightarrow> channel \<Rightarrow> thread_create_options \<Rightarrow> client \<Rightarrow> (js_error + ref) \<times> client" where
  "create e ch opts st =
     (case create_request ch opts of
        Inl err \<Rightarrow> (Inl err, st)
      | Inr (route, body) \<Rightarrow>
          (let st1 = st\<lparr>requests := requests st @ [Post route body (reason opts)]\<rparr> in
           case rest_post e route body (reason opts) of
             Inl err \<Rightarrow> (Inl err, st1)
           | Inr data \<Rightarrow>
               (case ThreadCreate_handle e data st1 of
                  (thread, st2) \<Rightarrow> (Inr thread, st2))))"

text \<open>
  The values the documentation of \<^verbatim>\<open>ThreadCreateOptions\<close> lists for \<^verbatim>\<open>type\<close>:
  \<^verbatim>\<open>ChannelType.GuildNewsThread|ChannelType.GuildPublicThread|ChannelType.GuildPrivateThread\<close>.
\<close>

definition recognized_thread_kind :: "jsval \<Rightarrow> bool" where
  "recognized_thread_kind v \<longleftrightarrow>
     v = JNumber ChannelType_GuildNewsThread \<or>
     v = JNumber ChannelType_GuildPublicThread \<or>
     v = JNumber ChannelType_GuildPrivateThread"

section \<open>The response mapper\<close>

record fetched_threads =
  threads :: "ref collection"
  hasMore :: bool

text \<open>
  Modelled from the spec: the constructor of \<^verbatim>\<open>ThreadChannel\<close> is not part of the
  sources at hand. An entity made from a raw payload carries the payload's identifier,
  parent identifier and archive timestamp, and no member data yet.
\<close>

definition thread_of_raw :: "raw_thread \<Rightarrow> thread" where
  "thread_of_raw raw =
     \<lparr>thread_id = raw_id raw, parentId = parent_id raw,
      archivedAt = archive_timestamp raw, members = []\<rparr>"

text \<open>
  Modelled from the spec: the refresh of a \<^verbatim>\<open>ThreadChannel\<close> from a raw payload is
  not part of the sources at hand. An entity that is observed again has its fields
  replaced by the payload's: the parent identifier and the archive timestamp. Its
  identifier and the member data attached to it stay.
\<close>

definition patch_thread :: "raw_thread \<Rightarrow> thread \<Rightarrow> thread" where
  "patch_thread raw t = t\<lparr>parentId := parent_id raw, archivedAt := archive_timestamp raw\<rparr>"

text \<open>
  Modelled from the spec: \<^verbatim>\<open>client.channels._add(raw, guild, { cache })\<close> belongs to the
  channel manager, which is not part of the sources at hand. It obtains the entity the
  shared cache holds under the payload's identifier, or creates the entity. With the
  caller's \<^verbatim>\<open>cache\<close> flag set, an obtained entity is refreshed from the payload and a
  created entity is put into the shared cache.
\<close>

definition channels_add :: "raw_thread \<Rightarrow> bool \<Rightarrow> client \<Rightarrow> ref \<times> client" where
  "channels_add raw cache st =
     (case map_of (channels_cache st) (raw_id raw) of
        Some existing \<Rightarrow>
          (existing,
           if cache
           then st\<lparr>heap := (heap st)(existing := patch_thread raw (heap st existing))\<rparr>
           else st)
      | None \<Rightarrow>
          (let r = next_ref st;
               st1 = st\<lparr>heap := (heap st)(r := thread_of_raw raw), next_ref := Suc r\<rparr>
           in (r, if cache
                  then st1\<lparr>channels_cache := AList.update (raw_id raw) r (channels_cache st1)\<rparr>
                  else st1)))"

text \<open>
  Modelled from the spec: \<^verbatim>\<open>thread.members._add(rawMember)\<close> belongs to the thread
  member manager, which is not part of the sources at hand. It attaches the membership
  data to the entity.
\<close>

definition members_add :: "raw_member \<Rightarrow> thread \<Rightarrow> thread" where
  "members_add rawMember t = t\<lparr>members := members t @ [rawMember]\<rparr>"

text \<open>
  The \<^verbatim>\<open>reduce\<close> of \<^verbatim>\<open>_mapThreads\<close> over \<^verbatim>\<open>rawThreads.threads\<close>, with the
  collection built so far and the client state:
  \<^verbatim>\<open>
    const thread = client.channels._add(raw, guild ?? parent?.guild, { cache });
    if (parent && thread.parentId !== parent.id) return coll;
    return coll.set(thread.id, thread);
  \<close>
\<close>

fun reduce_threads ::
  "channel option \<Rightarrow> bool \<Rightarrow> raw_thread list \<Rightarrow> ref collection \<Rightarrow> client
     \<Rightarrow> ref collection \<times> client" where
  "reduce_threads parent cache [] coll st = (coll, st)"
| "reduce_threads parent cache (raw # raws) coll st =
     (case channels_add raw cache st of
        (thread, st1) \<Rightarrow>
          if (case parent of
                None \<Rightarrow> False
              | Some p \<Rightarrow> parentId (heap st1 thread) \<noteq> Some (channel_id p))
          then reduce_threads parent cache raws coll st1
          else reduce_threads parent cache raws
                 (AList.update (thread_id (heap st1 thread)) thread coll) st1)"

text \<open>
  The loop over \<^verbatim>\<open>rawThreads.members\<close>:
  \<^verbatim>\<open>client.channels.cache.get(rawMember.id)?.members._add(rawMember)\<close>.
\<close>

definition attach_member :: "raw_member \<Rightarrow> client \<Rightarrow> client" where
  "attach_member rawMember st =
     (case map_of (channels_cache st) (member_id rawMember) of
        None \<Rightarrow> st
      | Some r \<Rightarrow> st\<lparr>heap := (heap st)(r := members_add rawMember (heap st r))\<rparr>)"

fun attach_members :: "raw_member list \<Rightarrow> client \<Rightarrow> client" where
  "attach_members [] st = st"
| "attach_members (rawMember # ms) st = attach_members ms (attach_member rawMember st)"

text \<open>
  \<^verbatim>\<open>
  static _mapThreads(rawThreads, client, { parent, guild, cache }) {
    const threads = rawThreads.threads.reduce(..., new Collection());
    for (const rawMember of rawThreads.members)
      client.channels.cache.get(rawMember.id)?.members._add(rawMember);
    return { threads, hasMore: rawThreads.has_more ?? false };
  }
  \<close>
  The \<^verbatim>\<open>guild\<close> argument only travels on to the channel manager and is left out.
\<close>

definition mapThreads ::
  "raw_response \<Rightarrow> channel option \<Rightarrow> bool \<Rightarrow> client \<Rightarrow> fetched_threads \<times> client" where
  "mapThreads rawThreads parent cache st =
     (case reduce_threads parent cache (raw_threads rawThreads) [] st of
        (coll, st1) \<Rightarrow>
          (\<lparr>threads = coll,
            hasMore = (case has_more rawThreads of None \<Rightarrow> False | Some b \<Rightarrow> b)\<rparr>,
           attach_members (raw_members rawThreads) st1))"

section \<open>ThreadManager.fetchActive and ThreadManager.fetchArchived\<close>

text \<open>
  \<^verbatim>\<open>
  async fetchActive(cache = true) {
    const raw = await this.client.rest.get(Routes.guildActiveThreads(this.channel.guild.id));
    return this.constructor._mapThreads(raw, this.client, { parent: this.channel, cache });
  }
  \<close>
\<close>

definition fetchActive ::
  "env \<Rightarrow> channel \<Rightarrow> bool \<Rightarrow> client \<Rightarrow> (js_error + fetched_threads) \<times> client" where
  "fetchActive e ch cache st =
     (let path = Routes_guildActiveThreads (guild_id ch);
          st1 = st\<lparr>requests := requests st @ [Get path Map.empty]\<rparr>
      in case rest_get e path Map.empty of
           Inl err \<Rightarrow> (Inl err, st1)
         | Inr raw \<Rightarrow>
             (case mapThreads raw (Some ch) cache st1 of
                (res, st2) \<Rightarrow> (Inr res, st2)))"

text \<open>\<open>archived_type\<close> is the option \<^verbatim>\<open>type\<close> and \<open>before_option\<close> the option \<^verbatim>\<open>before\<close>;
  an omitted option is \<open>None\<close>.\<close>

record fetch_archived_options =
  archived_type :: "string option"
  fetchAll :: "bool option"
  before_option :: "before_resolvable option"
  limit :: "int option"

text \<open>
  \<^verbatim>\<open>makeURLSearchParams({ limit })\<close> of @discordjs/rest leaves an undefined value out;
  \<open>QNumber n\<close> stands for the serialised number.
\<close>

definition makeURLSearchParams :: "int option \<Rightarrow> query" where
  "makeURLSearchParams lim =
     (case lim of None \<Rightarrow> Map.empty | Some n \<Rightarrow> [''limit'' \<mapsto> QNumber n])"

text \<open>The destructuring defaults \<^verbatim>\<open>type = 'public'\<close> and \<^verbatim>\<open>fetchAll = false\<close>.\<close>

definition option_type :: "fetch_archived_options \<Rightarrow> string" where
  "option_type opts = (case archived_type opts of None \<Rightarrow> ''public'' | Some t \<Rightarrow> t)"

definition option_fetchAll :: "fetch_archived_options \<Rightarrow> bool" where
  "option_fetchAll opts = (case fetchAll opts of None \<Rightarrow> False | Some b \<Rightarrow> b)"

text \<open>
  The condition of line 210,
  \<^verbatim>\<open>before instanceof ThreadChannel || /^\d{16,19}$/.test(String(before))\<close>:
  \<^verbatim>\<open>before\<close> has the form of an identifier.
\<close>

fun identifier_form :: "before_resolvable \<Rightarrow> bool" where
  "identifier_form (BThread _) = True"
| "identifier_form (BOther d) = test_snowflake d"

text \<open>
  Lines 202 to 227 of the source: everything \<^verbatim>\<open>fetchArchived\<close> does before it awaits
  \<^verbatim>\<open>client.rest.get\<close>. The result is the thrown \<^verbatim>\<open>TypeError\<close>, or the path and the
  query of the request. The condition of line 210 is taken apart into the case
  distinction on \<^verbatim>\<open>before\<close> and \<open>test_snowflake\<close>, so that the date branch has the
  date-like value at hand.
\<close>

definition fetchArchived_request ::
  "env \<Rightarrow> channel \<Rightarrow> fetch_archived_options \<Rightarrow> client \<Rightarrow> js_error + (route \<times> query)" where
  "fetchArchived_request e ch opts st =
     (let type = option_type opts;
          fetchAll = option_fetchAll opts;
          path =
            (if type = ''private'' \<and> \<not> fetchAll
             then Routes_channelJoinedArchivedThreads (channel_id ch)
             else Routes_channelThreads (channel_id ch) type);
          query = makeURLSearchParams (limit opts)
      in
      case before_option opts of
        None \<Rightarrow> Inr (path, query)
      | Some b \<Rightarrow>
          (let id = resolveId st b;
               timestamp =
                 (case resolve st b of
                    None \<Rightarrow> None
                  | Some t \<Rightarrow> map_option (toISOString e) (archivedAt (heap st t)));
               toUse = (if type = ''private'' \<and> \<not> fetchAll then id else timestamp);
               query_toUse =
                 (case toUse of
                    None \<Rightarrow> query
                  | Some v \<Rightarrow> if v \<noteq> [] then query(''before'' \<mapsto> QString v) else query)
           in
           case b of
             BThread _ \<Rightarrow> Inr (path, query_toUse)
           | BOther d \<Rightarrow>
               if test_snowflake d then Inr (path, query_toUse)
               else
                 (case Date_value e d of
                    None \<Rightarrow>
                      Inl (INVALID_TYPE ''before''
                             ''DateResolvable or ThreadChannelResolvable'')
                  | Some tv \<Rightarrow>
                      (let timestamp = toISOString e tv in
                       Inr (path,
                            if type = ''public'' \<or> fetchAll
                            then query(''before'' \<mapsto> QString timestamp)
                            else query)))))"

text \<open>
  \<^verbatim>\<open>fetchArchived\<close>: a thrown error leaves the client untouched; otherwise the request is
  issued (and logged), a transport error propagates, and the response goes through
  \<^verbatim>\<open>_mapThreads\<close> with the manager's channel as parent.
\<close>

definition fetchArchived ::
  "env \<Rightarrow> channel \<Rightarrow> fetch_archived_options \<Rightarrow> bool \<Rightarrow> client
     \<Rightarrow> (js_error + fetched_threads) \<times> client" where
  "fetchArchived e ch opts cache st =
     (case fetchArchived_request e ch opts st of
        Inl err \<Rightarrow> (Inl err, st)
      | Inr (path, query) \<Rightarrow>
          (let st1 = st\<lparr>requests := requests st @ [Get path query]\<rparr> in
           case rest_get e path query of
             Inl err \<Rightarrow> (Inl err, st1)
           | Inr raw \<Rightarrow>
               (case mapThreads raw (Some ch) cache st1 of
                  (res, st2) \<Rightarrow> (Inr res, st2))))"

section \<open>ThreadManager.fetch\<close>

text \<open>
  The first argument of \<^verbatim>\<open>fetch\<close>, a \<^verbatim>\<open>ThreadChannelResolvable|FetchThreadsOptions\<close>,
  as far as \<^verbatim>\<open>fetch\<close> looks at it: a string, or an object. Of an object the function
  asks whether it is a channel instance (\<open>Some r\<close>, the entity) and reads its property
  \<^verbatim>\<open>archived\<close> (\<open>Some o\<close> when the property is truthy, \<open>o\<close> being the options that
  \<^verbatim>\<open>fetchArchived\<close> destructures from it). An omitted argument is \<open>None\<close>.
\<close>

datatype selector =
    SelString string
  | SelObject "ref option" "fetch_archived_options option"

fun selector_truthy :: "selector \<Rightarrow> bool" where
  "selector_truthy (SelString s) = (s \<noteq> [])"
| "selector_truthy (SelObject _ _) = True"

fun selector_archived :: "selector \<Rightarrow> fetch_archived_options option" where
  "selector_archived (SelString _) = None"
| "selector_archived (SelObject _ a) = a"

text \<open>
  Modelled from the spec: \<^verbatim>\<open>client.channels.resolveId\<close> belongs to the channel manager,
  which is not part of the sources at hand. A live entity resolves to its identifier, a
  string of 16 to 19 digits to itself, anything else to \<^verbatim>\<open>null\<close>.
\<close>

fun channels_resolveId :: "client \<Rightarrow> selector \<Rightarrow> snowflake option" where
  "channels_resolveId st (SelObject (Some r) _) = Some (thread_id (heap st r))"
| "channels_resolveId st (SelObject None _) = None"
| "channels_resolveId st (SelString s) = (if snowflake_re s then Some s else None)"

record base_fetch_options =
  cache_option :: "bool option"
  force :: "bool option"

text \<open>The destructuring defaults \<^verbatim>\<open>cache = true\<close> and \<^verbatim>\<open>force = false\<close>.\<close>

definition option_cache :: "base_fetch_options \<Rightarrow> bool" where
  "option_cache fetchOptions =
     (case cache_option fetchOptions of None \<Rightarrow> True | Some b \<Rightarrow> b)"

definition option_force :: "base_fetch_options \<Rightarrow> bool" where
  "option_force fetchOptions = (case force fetchOptions of None \<Rightarrow> False | Some b \<Rightarrow> b)"

text \<open>The result of \<^verbatim>\<open>fetch\<close> is a single channel or a set of fetched threads.\<close>

datatype fetched = FetchedChannel ref | FetchedThreads fetched_threads

definition as_threads ::
  "(js_error + fetched_threads) \<times> client \<Rightarrow> (js_error + fetched) \<times> client" where
  "as_threads = map_prod (map_sum (\<lambda>err. err) FetchedThreads) (\<lambda>st. st)"

definition as_channel ::
  "(js_error + ref) \<times> client \<Rightarrow> (js_error + fetched) \<times> client" where
  "as_channel = map_prod (map_sum (\<lambda>err. err) FetchedChannel) (\<lambda>st. st)"

text \<open>
  \<^verbatim>\<open>
  fetch(options, { cache = true, force = false } = {}) {
    if (!options) return this.fetchActive(cache);
    const channel = this.client.channels.resolveId(options);
    if (channel) return this.client.channels.fetch(channel, cache, force);
    if (options.archived) {
      return this.fetchArchived(options.archived, cache);
    }
    return this.fetchActive(cache);
  }
  \<close>
\<close>

definition fetch ::
  "env \<Rightarrow> channel \<Rightarrow> selector option \<Rightarrow> base_fetch_options \<Rightarrow> client
     \<Rightarrow> (js_error + fetched) \<times> client" where
  "fetch e ch options fetchOptions st =
     (let cache = option_cache fetchOptions;
          force = option_force fetchOptions
      in
      case options of
        None \<Rightarrow> as_threads (fetchActive e ch cache st)
      | Some opt \<Rightarrow>
          if \<not> selector_truthy opt then as_threads (fetchActive e ch cache st)
          else
            (let channel = channels_resolveId st opt;
                 unresolved =
                   (case selector_archived opt of
                      Some archived \<Rightarrow> as_threads (fetchArchived e ch archived cache st)
                    | None \<Rightarrow> as_threads (fetchActive e ch cache st))
             in
             case channel of
               Some c \<Rightarrow>
                 if c \<noteq> [] then as_channel (channels_fetch e c cache force st)
                 else unresolved
             | None \<Rightarrow> unresolved))"

section \<open>Example inputs\<close>

text \<open>
  A text channel and an announcement channel, a small runtime that knows the date
  2023-01-01, and a client with three objects: thread 0 under the text channel and
  thread 1 under another channel, both in the shared cache, and object 2, a second
  instance with the id of thread 1 that no cache holds.
\<close>

definition ex_channel :: channel where
  "ex_channel =
     \<lparr>channel_id = ''100000000000000001'', channel_type = 0,
      guild_id = ''100000000000000000'', defaultAutoArchiveDuration = Some 1440,
      messages_resolveId = (\<lambda>v. case v of JString s \<Rightarrow> Some s | _ \<Rightarrow> None)\<rparr>"

definition ex_news_channel :: channel where
  "ex_news_channel = ex_channel\<lparr>channel_type := ChannelType_GuildNews\<rparr>"

definition ex_thread0 :: thread where
  "ex_thread0 =
     \<lparr>thread_id = ''111111111111111111'', parentId = Some ''100000000000000001'',
      archivedAt = None, members = []\<rparr>"

definition ex_thread1 :: thread where
  "ex_thread1 =
     \<lparr>thread_id = ''222222222222222222'', parentId = Some ''100000000000000002'',
      archivedAt = Some 1672531200000, members = []\<rparr>"

definition ex_thread2 :: thread where
  "ex_thread2 =
     \<lparr>thread_id = ''222222222222222222'', parentId = Some ''100000000000000002'',
      archivedAt = None, members = []\<rparr>"

definition ex_client :: client where
  "ex_client =
     \<lparr>heap = (\<lambda>r. if r = 0 then ex_thread0 else if r = 1 then ex_thread1 else ex_thread2),
      next_ref = 3,
      channels_cache = [(''111111111111111111'', 0), (''222222222222222222'', 1)],
      threads_cache = [(''111111111111111111'', 0)],
      requests = []\<rparr>"

definition ex_response :: raw_response where
  "ex_response =
     \<lparr>raw_threads =
        [\<lparr>raw_id = ''333333333333333333'', parent_id = Some ''100000000000000001'',
          archive_timestamp = None\<rparr>,
         \<lparr>raw_id = ''222222222222222222'', parent_id = Some ''100000000000000002'',
          archive_timestamp = Some 1672531200000\<rparr>],
      raw_members =
        [\<lparr>member_id = ''222222222222222222'', user_id = ''900000000000000009''\<rparr>,
         \<lparr>member_id = ''333333333333333333'', user_id = ''900000000000000009''\<rparr>,
         \<lparr>member_id = ''444444444444444444'', user_id = ''900000000000000009''\<rparr>],
      has_more = None\<rparr>"

text \<open>
  Two more responses: one names thread 3 twice, first under the example channel and
  then under another channel; one names the cached thread 1 under the example channel.
\<close>

definition ex_response_twice :: raw_response where
  "ex_response_twice =
     \<lparr>raw_threads =
        [\<lparr>raw_id = ''333333333333333333'', parent_id = Some ''100000000000000001'',
          archive_timestamp = None\<rparr>,
         \<lparr>raw_id = ''333333333333333333'', parent_id = Some ''100000000000000002'',
          archive_timestamp = None\<rparr>],
      raw_members = [], has_more = None\<rparr>"

definition ex_response_moved :: raw_response where
  "ex_response_moved =
     \<lparr>raw_threads =
        [\<lparr>raw_id = ''222222222222222222'', parent_id = Some ''100000000000000001'',
          archive_timestamp = None\<rparr>],
      raw_members = [], has_more = None\<rparr>"

definition ex_env :: env where
  "ex_env =
     \<lparr>Date_parse = (\<lambda>s. if s = ''2023-01-01T00:00:00.000Z'' then Some 1672531200000 else None),
      toISOString =
        (\<lambda>tv. if tv = 1672531200000 then ''2023-01-01T00:00:00.000Z''
              else ''1970-01-01T00:00:00.000Z''),
      rest_get = (\<lambda>path query. Inr ex_response),
      rest_post =
        (\<lambda>route body reason.
           Inr \<lparr>raw_id = ''555555555555555555'', parent_id = Some ''100000000000000001'',
                archive_timestamp = None\<rparr>),
      channels_fetch = (\<lambda>c cache force st. (Inl (TransportError ''Unknown Channel''), st)),
      ThreadCreate_handle = (\<lambda>data st. channels_add data True st)\<rparr>"

definition ex_create_options :: thread_create_options where
  "ex_create_options =
     \<lparr>name = Some ''food-talk'', autoArchiveDuration = Some 60, startMessage = JUndefined,
      create_type = JUndefined, invitable = None,
      reason = Some ''Needed a separate thread for food'', rateLimitPerUser = None\<rparr>"

definition ex_archived_options :: fetch_archived_options where
  "ex_archived_options =
     \<lparr>archived_type = None, fetchAll = None, before_option = None, limit = Some 50\<rparr>"

section \<open>Properties of ThreadManager._add\<close>





section \<open>Properties of ThreadManager.create\<close>

lemmas ChannelType_defs =
  ChannelType_GuildNews_def ChannelType_GuildNewsThread_def
  ChannelType_GuildPublicThread_def ChannelType_GuildPrivateThread_def

text \<open>
  C2, as the code has it. The guard of \<^verbatim>\<open>create\<close> looks at the JavaScript type of
  \<^verbatim>\<open>type\<close>, not at its value: a truthy \<^verbatim>\<open>type\<close> that is neither a string nor a number
  makes \<^verbatim>\<open>create\<close> fail with the invalid-argument error, the client untouched and no
  request issued; a \<^verbatim>\<open>type\<close> that is falsy, a string or a number never raises that
  error, whatever its value.
\<close>

theorem create_type_guard:
  "(truthy (create_type opts) \<and> typeof (create_type opts) \<noteq> TString \<and>
      typeof (create_type opts) \<noteq> TNumber \<longrightarrow>
      create e ch opts st = (Inl (INVALID_TYPE ''type'' ''ThreadChannelType or Number''), st)) \<and>
   (\<not> truthy (create_type opts) \<or> typeof (create_type opts) = TString \<or>
      typeof (create_type opts) = TNumber \<longrightarrow>
      create_request ch opts \<noteq> Inl (INVALID_TYPE ''type'' ''ThreadChannelType or Number''))"
  by (auto simp: create_def create_request_def Let_def split: sum.splits if_splits)

theorem create_type_guard_witness:
  "truthy (JObject []) \<and> typeof (JObject []) \<noteq> TString \<and> typeof (JObject []) \<noteq> TNumber \<and>
   create ex_env ex_channel (ex_create_options\<lparr>create_type := JObject []\<rparr>) ex_client =
     (Inl (INVALID_TYPE ''type'' ''ThreadChannelType or Number''), ex_client) \<and>
   typeof (JString ''banana'') = TString \<and>
   create_request ex_channel (ex_create_options\<lparr>create_type := JString ''banana''\<rparr>) \<noteq>
     Inl (INVALID_TYPE ''type'' ''ThreadChannelType or Number'')"
  using
    create_type_guard [where opts = "ex_create_options\<lparr>create_type := JObject []\<rparr>"
      and e = ex_env and ch = ex_channel and st = ex_client]
    create_type_guard [where opts = "ex_create_options\<lparr>create_type := JString ''banana''\<rparr>"
      and ch = ex_channel]
  by simp

text \<open>
  C2 as stated fails: the number 999 is provided as \<^verbatim>\<open>type\<close> and is no thread kind, yet
  \<^verbatim>\<open>create\<close> on the example text channel raises nothing, posts the request with
  \<^verbatim>\<open>type: 999\<close> in its body and returns the thread the creation action makes.
\<close>

theorem create_unrecognized_type_counterexample:
  "create_type (ex_create_options\<lparr>create_type := JNumber 999\<rparr>) = JNumber 999 \<and>
   \<not> recognized_thread_kind (JNumber 999) \<and>
   create ex_env ex_channel (ex_create_options\<lparr>create_type := JNumber 999\<rparr>) ex_client =
     (Inr 3,
      ex_client
        \<lparr>heap := (heap ex_client)
           (3 := \<lparr>thread_id = ''555555555555555555'', parentId = Some ''100000000000000001'',
                  archivedAt = None, members = []\<rparr>),
         next_ref := 4,
         channels_cache :=
           [(''111111111111111111'', 0), (''222222222222222222'', 1),
            (''555555555555555555'', 3)],
         requests :=
           [Post (Routes_threads ''100000000000000001'' None)
              \<lparr>body_name = Some ''food-talk'', auto_archive_duration = Some 60,
               body_type = JNumber 999, body_invitable = None, rate_limit_per_user = None\<rparr>
              (Some ''Needed a separate thread for food'')]\<rparr>)"
  by (simp add: ex_channel_def ex_client_def ex_env_def ex_create_options_def
      create_def create_request_def channels_add_def thread_of_raw_def
      recognized_thread_kind_def ChannelType_defs Let_def)

text \<open>
  \<^verbatim>\<open>create\<close> builds its request whenever \<^verbatim>\<open>type\<close> passes the guard and a supplied
  start message resolves.
\<close>

lemma create_request_ok:
  "\<not> (truthy (create_type opts) \<and> typeof (create_type opts) \<noteq> TString \<and> typeof (create_type opts) \<noteq> TNumber) \<Longrightarrow>
   (truthy (startMessage opts) \<longrightarrow> truthy_str (messages_resolveId ch (startMessage opts))) \<Longrightarrow>
   \<exists>route body. create_request ch opts = Inr (route, body)"
  by (auto simp: create_request_def Let_def split: if_splits)

text \<open>
  C4. Whenever \<^verbatim>\<open>create\<close> gets as far as its request, the \<^verbatim>\<open>type\<close> in the body is:
  with a start message, the default derived from the channel (the announcement thread
  kind on an announcement channel, the public thread kind otherwise), whatever the
  caller's \<^verbatim>\<open>type\<close>; without a start message on an announcement channel, the
  announcement thread kind, whatever the caller's \<^verbatim>\<open>type\<close>; otherwise the caller's
  \<^verbatim>\<open>type\<close>, and the public thread kind when \<^verbatim>\<open>type\<close> is undefined or null.
\<close>

theorem create_resolved_kind:
  assumes "create_request ch opts = Inr (route, body)"
  shows "(truthy (startMessage opts) \<longrightarrow>
            body_type body =
              (if channel_type ch = ChannelType_GuildNews
               then JNumber ChannelType_GuildNewsThread
               else JNumber ChannelType_GuildPublicThread)) \<and>
         (\<not> truthy (startMessage opts) \<and> channel_type ch = ChannelType_GuildNews \<longrightarrow>
            body_type body = JNumber ChannelType_GuildNewsThread) \<and>
         (\<not> truthy (startMessage opts) \<and> channel_type ch \<noteq> ChannelType_GuildNews \<longrightarrow>
            body_type body =
              (if create_type opts = JUndefined \<or> create_type opts = JNull
               then JNumber ChannelType_GuildPublicThread
               else create_type opts))"
  using assms
  by (cases "create_type opts")
     (auto simp: create_request_def Let_def split: if_splits)

text \<open>
  A start message overrides \<^verbatim>\<open>type: GuildPrivateThread\<close>; an announcement channel
  overrides \<^verbatim>\<open>type: GuildPublicThread\<close>; a text channel keeps
  \<^verbatim>\<open>type: GuildPrivateThread\<close> and defaults to the public kind.
\<close>

theorem create_resolved_kind_witness:
  "(\<exists>route body.
      create_request ex_channel
        (ex_create_options\<lparr>startMessage := JString ''600000000000000006'',
                            create_type := JNumber ChannelType_GuildPrivateThread\<rparr>) =
        Inr (route, body) \<and>
      body_type body = JNumber ChannelType_GuildPublicThread) \<and>
   (\<exists>route body.
      create_request ex_news_channel
        (ex_create_options\<lparr>create_type := JNumber ChannelType_GuildPublicThread\<rparr>) =
        Inr (route, body) \<and>
      body_type body = JNumber ChannelType_GuildNewsThread) \<and>
   (\<exists>route body.
      create_request ex_channel
        (ex_create_options\<lparr>create_type := JNumber ChannelType_GuildPrivateThread\<rparr>) =
        Inr (route, body) \<and>
      body_type body = JNumber ChannelType_GuildPrivateThread) \<and>
   (\<exists>route body.
      create_request ex_channel ex_create_options = Inr (route, body) \<and>
      body_type body = JNumber ChannelType_GuildPublicThread)"
proof -
  let ?o1 = "ex_create_options\<lparr>startMessage := JString ''600000000000000006'',
                            create_type := JNumber ChannelType_GuildPrivateThread\<rparr>"
  let ?o2 = "ex_create_options\<lparr>create_type := JNumber ChannelType_GuildPublicThread\<rparr>"
  let ?o3 = "ex_create_options\<lparr>create_type := JNumber ChannelType_GuildPrivateThread\<rparr>"
  obtain r1 b1 where 1: "create_request ex_channel ?o1 = Inr (r1, b1)"
    by (simp add: create_request_def ex_channel_def ex_create_options_def ChannelType_defs Let_def)
  obtain r2 b2 where 2: "create_request ex_news_channel ?o2 = Inr (r2, b2)"
    by (simp add: create_request_def ex_news_channel_def ex_channel_def ex_create_options_def ChannelType_defs Let_def)
  obtain r3 b3 where 3: "create_request ex_channel ?o3 = Inr (r3, b3)"
    by (simp add: create_request_def ex_channel_def ex_create_options_def ChannelType_defs Let_def)
  obtain r4 b4 where 4: "create_request ex_channel ex_create_options = Inr (r4, b4)"
    by (simp add: create_request_def ex_channel_def ex_create_options_def ChannelType_defs Let_def)
  have "body_type b1 = JNumber ChannelType_GuildPublicThread"
    using create_resolved_kind [OF 1]
    by (simp add: ex_channel_def ex_create_options_def ChannelType_defs)
  moreover have "body_type b2 = JNumber ChannelType_GuildNewsThread"
    using create_resolved_kind [OF 2]
    by (simp add: ex_news_channel_def ex_channel_def ex_create_options_def ChannelType_defs)
  moreover have "body_type b3 = JNumber ChannelType_GuildPrivateThread"
    using create_resolved_kind [OF 3]
    by (simp add: ex_channel_def ex_create_options_def ChannelType_defs)
  moreover have "body_type b4 = JNumber ChannelType_GuildPublicThread"
    using create_resolved_kind [OF 4]
    by (simp add: ex_channel_def ex_create_options_def ChannelType_defs)
  ultimately show ?thesis using 1 2 3 4 by (simp add: ChannelType_defs)
qed

section \<open>Properties of ThreadManager.fetchArchived\<close>

text \<open>The request of \<^verbatim>\<open>fetchArchived\<close> in each of the three forms of \<^verbatim>\<open>before\<close>.\<close>

lemma fetchArchived_request_no_before:
  "before_option opts = None \<Longrightarrow>
   fetchArchived_request e ch opts st =
     Inr (if option_type opts = ''private'' \<and> \<not> option_fetchAll opts
          then Routes_channelJoinedArchivedThreads (channel_id ch)
          else Routes_channelThreads (channel_id ch) (option_type opts),
          makeURLSearchParams (limit opts))"
  by (simp add: fetchArchived_request_def Let_def)

lemma fetchArchived_request_identifier:
  "before_option opts = Some b \<Longrightarrow> identifier_form b \<Longrightarrow>
   fetchArchived_request e ch opts st =
     Inr (if option_type opts = ''private'' \<and> \<not> option_fetchAll opts
          then Routes_channelJoinedArchivedThreads (channel_id ch)
          else Routes_channelThreads (channel_id ch) (option_type opts),
          case (if option_type opts = ''private'' \<and> \<not> option_fetchAll opts
                then resolveId st b
                else case resolve st b of
                       None \<Rightarrow> None
                     | Some t \<Rightarrow> map_option (toISOString e) (archivedAt (heap st t))) of
            None \<Rightarrow> makeURLSearchParams (limit opts)
          | Some v \<Rightarrow>
              if v \<noteq> [] then (makeURLSearchParams (limit opts))(''before'' \<mapsto> QString v)
              else makeURLSearchParams (limit opts))"
  by (cases b) (simp_all add: fetchArchived_request_def Let_def)

lemma fetchArchived_request_date:
  "before_option opts = Some (BOther d) \<Longrightarrow> \<not> test_snowflake d \<Longrightarrow>
   fetchArchived_request e ch opts st =
     (case Date_value e d of
        None \<Rightarrow> Inl (INVALID_TYPE ''before'' ''DateResolvable or ThreadChannelResolvable'')
      | Some tv \<Rightarrow>
          Inr (if option_type opts = ''private'' \<and> \<not> option_fetchAll opts
               then Routes_channelJoinedArchivedThreads (channel_id ch)
               else Routes_channelThreads (channel_id ch) (option_type opts),
               if option_type opts = ''public'' \<or> option_fetchAll opts
               then (makeURLSearchParams (limit opts))
                      (''before'' \<mapsto> QString (toISOString e tv))
               else makeURLSearchParams (limit opts)))"
  by (simp add: fetchArchived_request_def Let_def split: option.splits)

lemma makeURLSearchParams_before: "makeURLSearchParams lim ''before'' = None"
  by (simp add: makeURLSearchParams_def split: option.splits)

lemma before_cases:
  obtains (idform) "identifier_form b" | (dateform) d where "b = BOther d" "\<not> test_snowflake d"
  by (cases b) auto

lemma fetchArchived_returns:
  "fetchArchived_request e ch opts st = Inr (path, q) \<Longrightarrow> rest_get e path q = Inr raw \<Longrightarrow>
   \<exists>res. fst (fetchArchived e ch opts cache st) = Inr res"
  by (simp add: fetchArchived_def Let_def split: prod.splits)

lemmas fa_defs = fetchArchived_request_def option_type_def option_fetchAll_def
  makeURLSearchParams_def snowflake_re_def is_digit_def Let_def

text \<open>
  C6. Whenever \<^verbatim>\<open>fetchArchived\<close> gets as far as its request, the path is the
  joined-archived path exactly when \<^verbatim>\<open>type\<close> is \<^verbatim>\<open>'private'\<close> and \<^verbatim>\<open>fetchAll\<close> is
  false, and the channel-archived-by-kind path of \<^verbatim>\<open>type\<close> in every other case.
\<close>

theorem fetchArchived_path:
  assumes "fetchArchived_request e ch opts st = Inr (path, q)"
  shows "(path = Routes_channelJoinedArchivedThreads (channel_id ch) \<longleftrightarrow>
            option_type opts = ''private'' \<and> \<not> option_fetchAll opts) \<and>
         (\<not> (option_type opts = ''private'' \<and> \<not> option_fetchAll opts) \<longrightarrow>
            path = Routes_channelThreads (channel_id ch) (option_type opts))"
proof (cases "before_option opts")
  case None
  from fetchArchived_request_no_before [OF None, of e ch st] assms show ?thesis
    by (auto split: if_splits)
next
  case (Some b)
  show ?thesis
  proof (cases b rule: before_cases)
    case idform
    from fetchArchived_request_identifier [OF Some idform, of e ch st] assms show ?thesis
      by (auto split: if_splits)
  next
    case (dateform d)
    with Some have "before_option opts = Some (BOther d)" by simp
    from fetchArchived_request_date [OF this dateform(2), of e ch st] assms show ?thesis
      by (auto split: if_splits option.splits)
  qed
qed

theorem fetchArchived_path_witness:
  "(\<exists>q. fetchArchived_request ex_env ex_channel
           (ex_archived_options\<lparr>archived_type := Some ''private''\<rparr>) ex_client =
         Inr (Routes_channelJoinedArchivedThreads ''100000000000000001'', q)) \<and>
   (\<exists>q. fetchArchived_request ex_env ex_channel
           (ex_archived_options\<lparr>archived_type := Some ''private'', fetchAll := Some True\<rparr>)
           ex_client =
         Inr (Routes_channelThreads ''100000000000000001'' ''private'', q)) \<and>
   (\<exists>q. fetchArchived_request ex_env ex_channel ex_archived_options ex_client =
         Inr (Routes_channelThreads ''100000000000000001'' ''public'', q))"
proof -
  let ?o1 = "ex_archived_options\<lparr>archived_type := Some ''private''\<rparr>"
  let ?o2 = "ex_archived_options\<lparr>archived_type := Some ''private'', fetchAll := Some True\<rparr>"
  obtain p1 q1 where 1: "fetchArchived_request ex_env ex_channel ?o1 ex_client = Inr (p1, q1)"
    by (simp add: fa_defs ex_archived_options_def)
  obtain p2 q2 where 2: "fetchArchived_request ex_env ex_channel ?o2 ex_client = Inr (p2, q2)"
    by (simp add: fa_defs ex_archived_options_def)
  obtain p3 q3 where
    3: "fetchArchived_request ex_env ex_channel ex_archived_options ex_client = Inr (p3, q3)"
    by (simp add: fa_defs ex_archived_options_def)
  have "p1 = Routes_channelJoinedArchivedThreads ''100000000000000001''"
    using fetchArchived_path [OF 1]
    by (simp add: option_type_def option_fetchAll_def ex_archived_options_def ex_channel_def)
  moreover have "p2 = Routes_channelThreads ''100000000000000001'' ''private''"
    using fetchArchived_path [OF 2]
    by (simp add: option_type_def option_fetchAll_def ex_archived_options_def ex_channel_def)
  moreover have "p3 = Routes_channelThreads ''100000000000000001'' ''public''"
    using fetchArchived_path [OF 3]
    by (simp add: option_type_def option_fetchAll_def ex_archived_options_def ex_channel_def)
  ultimately show ?thesis using 1 2 3 by simp
qed

text \<open>
  C1. For a call with a \<^verbatim>\<open>before\<close> value that gets as far as its request: when
  \<^verbatim>\<open>type\<close> is \<^verbatim>\<open>'public'\<close> or \<^verbatim>\<open>fetchAll\<close> is true, the query has no \<^verbatim>\<open>before\<close> or
  its \<^verbatim>\<open>before\<close> is the result of \<^verbatim>\<open>toISOString()\<close>; when \<^verbatim>\<open>type\<close> is
  \<^verbatim>\<open>'private'\<close> and \<^verbatim>\<open>fetchAll\<close> is false, the query has no \<^verbatim>\<open>before\<close> or its
  \<^verbatim>\<open>before\<close> is the identifier that \<^verbatim>\<open>resolveId(before)\<close> gives.
\<close>

theorem fetchArchived_cursor_kind:
  assumes "before_option opts = Some b"
    and "fetchArchived_request e ch opts st = Inr (path, q)"
  shows "(option_type opts = ''public'' \<or> option_fetchAll opts \<longrightarrow>
            q ''before'' = None \<or>
            (\<exists>tv. q ''before'' = Some (QString (toISOString e tv)))) \<and>
         (option_type opts = ''private'' \<and> \<not> option_fetchAll opts \<longrightarrow>
            q ''before'' = None \<or>
            (\<exists>i. resolveId st b = Some i \<and> q ''before'' = Some (QString i)))"
proof (cases b rule: before_cases)
  case idform
  from fetchArchived_request_identifier [OF assms(1) idform, of e ch st] assms(2)
  show ?thesis
    by (auto simp: makeURLSearchParams_before split: if_splits option.splits)
next
  case (dateform d)
  with assms(1) have "before_option opts = Some (BOther d)" by simp
  from fetchArchived_request_date [OF this dateform(2), of e ch st] assms(2) show ?thesis
    by (auto simp: makeURLSearchParams_before split: if_splits option.splits)
qed

text \<open>
  Thread 1 was archived on 2023-01-01: as \<^verbatim>\<open>before\<close> of a public listing it gives the
  timestamp, as \<^verbatim>\<open>before\<close> of a private joined listing its identifier.
\<close>

theorem fetchArchived_cursor_kind_witness:
  "(\<exists>path q.
      fetchArchived_request ex_env ex_channel
        (ex_archived_options\<lparr>before_option := Some (BThread 1)\<rparr>) ex_client = Inr (path, q) \<and>
      q ''before'' = Some (QString ''2023-01-01T00:00:00.000Z'') \<and>
      (q ''before'' = None \<or> (\<exists>tv. q ''before'' = Some (QString (toISOString ex_env tv))))) \<and>
   (\<exists>path q.
      fetchArchived_request ex_env ex_channel
        (ex_archived_options
           \<lparr>archived_type := Some ''private'', before_option := Some (BThread 1)\<rparr>)
        ex_client = Inr (path, q) \<and>
      q ''before'' = Some (QString ''222222222222222222'') \<and>
      (q ''before'' = None \<or>
       (\<exists>i. resolveId ex_client (BThread 1) = Some i \<and> q ''before'' = Some (QString i))))"
proof -
  let ?o1 = "ex_archived_options\<lparr>before_option := Some (BThread 1)\<rparr>"
  let ?o2 = "ex_archived_options
               \<lparr>archived_type := Some ''private'', before_option := Some (BThread 1)\<rparr>"
  have b1: "before_option ?o1 = Some (BThread 1)" and b2: "before_option ?o2 = Some (BThread 1)"
    by simp_all
  obtain p1 q1 where 1: "fetchArchived_request ex_env ex_channel ?o1 ex_client = Inr (p1, q1)"
    and v1: "q1 ''before'' = Some (QString ''2023-01-01T00:00:00.000Z'')"
    by (simp add: fa_defs ex_archived_options_def ex_client_def ex_thread0_def ex_thread1_def
        ex_thread2_def ex_env_def)
  obtain p2 q2 where 2: "fetchArchived_request ex_env ex_channel ?o2 ex_client = Inr (p2, q2)"
    and v2: "q2 ''before'' = Some (QString ''222222222222222222'')"
    by (simp add: fa_defs ex_archived_options_def ex_client_def ex_thread0_def ex_thread1_def
        ex_thread2_def ex_env_def)
  have "q1 ''before'' = None \<or> (\<exists>tv. q1 ''before'' = Some (QString (toISOString ex_env tv)))"
    using fetchArchived_cursor_kind [OF b1 1]
    by (simp add: option_type_def option_fetchAll_def ex_archived_options_def)
  moreover have "q2 ''before'' = None \<or>
      (\<exists>i. resolveId ex_client (BThread 1) = Some i \<and> q2 ''before'' = Some (QString i))"
    using fetchArchived_cursor_kind [OF b2 2]
    by (simp add: option_type_def option_fetchAll_def ex_archived_options_def)
  ultimately show ?thesis using 1 2 v1 v2 by blast
qed

text \<open>
  C5. On the general path (not both \<^verbatim>\<open>type\<close> \<^verbatim>\<open>'private'\<close> and \<^verbatim>\<open>fetchAll\<close> false), a
  \<^verbatim>\<open>before\<close> in identifier form whose entity is not in the manager's cache, or has no
  \<^verbatim>\<open>archivedAt\<close>, raises nothing: the request goes to the channel-archived-by-kind path
  with the query of \<^verbatim>\<open>limit\<close> alone, which has no \<^verbatim>\<open>before\<close>, and the call returns a
  result whenever the transport does.
\<close>

theorem fetchArchived_no_archive_timestamp:
  assumes "before_option opts = Some b"
    and "identifier_form b"
    and "\<not> (option_type opts = ''private'' \<and> \<not> option_fetchAll opts)"
    and "resolve st b = None \<or> (\<exists>r. resolve st b = Some r \<and> archivedAt (heap st r) = None)"
  shows "fetchArchived_request e ch opts st =
           Inr (Routes_channelThreads (channel_id ch) (option_type opts),
                makeURLSearchParams (limit opts)) \<and>
         makeURLSearchParams (limit opts) ''before'' = None \<and>
         (\<forall>raw. rest_get e (Routes_channelThreads (channel_id ch) (option_type opts))
                  (makeURLSearchParams (limit opts)) = Inr raw \<longrightarrow>
               (\<exists>res. fst (fetchArchived e ch opts cache st) = Inr res))"
proof -
  from fetchArchived_request_identifier [OF assms(1,2), of e ch st] assms(3,4)
  have req: "fetchArchived_request e ch opts st =
               Inr (Routes_channelThreads (channel_id ch) (option_type opts),
                    makeURLSearchParams (limit opts))"
    by auto
  with fetchArchived_returns [OF req] show ?thesis
    by (simp add: makeURLSearchParams_before)
qed

theorem fetchArchived_no_archive_timestamp_witness:
  "before_option (ex_archived_options\<lparr>before_option := Some (BThread 0)\<rparr>) = Some (BThread 0) \<and>
   identifier_form (BThread 0) \<and>
   resolve ex_client (BThread 0) = Some 0 \<and> archivedAt (heap ex_client 0) = None \<and>
   fetchArchived_request ex_env ex_channel
     (ex_archived_options\<lparr>before_option := Some (BThread 0)\<rparr>) ex_client =
     Inr (Routes_channelThreads ''100000000000000001'' ''public'',
          makeURLSearchParams (Some 50)) \<and>
   makeURLSearchParams (Some 50) ''before'' = None \<and>
   (\<exists>res. fst (fetchArchived ex_env ex_channel
                 (ex_archived_options\<lparr>before_option := Some (BThread 0)\<rparr>) True ex_client) =
           Inr res)"
proof -
  let ?o = "ex_archived_options\<lparr>before_option := Some (BThread 0)\<rparr>"
  have b: "before_option ?o = Some (BThread 0)" by simp
  have i: "identifier_form (BThread 0)" by simp
  have g: "\<not> (option_type ?o = ''private'' \<and> \<not> option_fetchAll ?o)"
    by (simp add: option_type_def ex_archived_options_def)
  have r: "resolve ex_client (BThread 0) = Some 0" by simp
  have a: "archivedAt (heap ex_client 0) = None" by (simp add: ex_client_def ex_thread0_def)
  have t: "rest_get ex_env (Routes_channelThreads (channel_id ex_channel) (option_type ?o))
             (makeURLSearchParams (limit ?o)) = Inr ex_response"
    by (simp add: ex_env_def)
  from r a have u: "resolve ex_client (BThread 0) = None \<or>
      (\<exists>r. resolve ex_client (BThread 0) = Some r \<and> archivedAt (heap ex_client r) = None)"
    by simp
  from fetchArchived_no_archive_timestamp [OF b i g u, of ex_env ex_channel True] t b i r a
  show ?thesis
    by (simp add: option_type_def ex_archived_options_def ex_channel_def)
qed

text \<open>
  C8. Let \<^verbatim>\<open>before\<close> be present and not in identifier form (neither a thread instance
  nor a value whose string form is 16 to 19 digits). If it is no valid date, the call
  fails with the invalid-argument error whatever \<^verbatim>\<open>type\<close> and \<^verbatim>\<open>fetchAll\<close> are, and
  the client, its request log included, is as before. If it is a valid date, the
  timestamp is the \<^verbatim>\<open>before\<close> of the query when \<^verbatim>\<open>type\<close> is \<^verbatim>\<open>'public'\<close> or
  \<^verbatim>\<open>fetchAll\<close> is true, on the channel-archived-by-kind path, and on the joined-archived
  path the query has no \<^verbatim>\<open>before\<close>.
\<close>

theorem fetchArchived_date_before:
  assumes "before_option opts = Some (BOther d)" and "\<not> test_snowflake d"
  shows "(Date_value e d = None \<longrightarrow>
            fetchArchived e ch opts cache st =
              (Inl (INVALID_TYPE ''before'' ''DateResolvable or ThreadChannelResolvable''), st)) \<and>
         (\<forall>tv. Date_value e d = Some tv \<and> (option_type opts = ''public'' \<or> option_fetchAll opts) \<longrightarrow>
            fetchArchived_request e ch opts st =
              Inr (Routes_channelThreads (channel_id ch) (option_type opts),
                   (makeURLSearchParams (limit opts))
                     (''before'' \<mapsto> QString (toISOString e tv)))) \<and>
         (\<forall>tv. Date_value e d = Some tv \<and> option_type opts = ''private'' \<and> \<not> option_fetchAll opts \<longrightarrow>
            fetchArchived_request e ch opts st =
              Inr (Routes_channelJoinedArchivedThreads (channel_id ch),
                   makeURLSearchParams (limit opts)) \<and>
            makeURLSearchParams (limit opts) ''before'' = None)"
  using fetchArchived_request_date [OF assms, of e ch st]
  by (auto simp: fetchArchived_def makeURLSearchParams_before)

theorem fetchArchived_date_before_witness:
  "\<not> test_snowflake (DString ''yesterday'') \<and> Date_value ex_env (DString ''yesterday'') = None \<and>
   fetchArchived ex_env ex_channel
     (ex_archived_options\<lparr>before_option := Some (BOther (DString ''yesterday''))\<rparr>) True
     ex_client =
     (Inl (INVALID_TYPE ''before'' ''DateResolvable or ThreadChannelResolvable''), ex_client) \<and>
   fetchArchived ex_env ex_channel
     (ex_archived_options
        \<lparr>archived_type := Some ''private'',
         before_option := Some (BOther (DString ''yesterday''))\<rparr>) True ex_client =
     (Inl (INVALID_TYPE ''before'' ''DateResolvable or ThreadChannelResolvable''), ex_client) \<and>
   \<not> test_snowflake (DString ''2023-01-01T00:00:00.000Z'') \<and>
   Date_value ex_env (DString ''2023-01-01T00:00:00.000Z'') = Some 1672531200000 \<and>
   fetchArchived_request ex_env ex_channel
     (ex_archived_options
        \<lparr>before_option := Some (BOther (DString ''2023-01-01T00:00:00.000Z''))\<rparr>) ex_client =
     Inr (Routes_channelThreads ''100000000000000001'' ''public'',
          (makeURLSearchParams (Some 50))
            (''before'' \<mapsto> QString ''2023-01-01T00:00:00.000Z'')) \<and>
   fetchArchived_request ex_env ex_channel
     (ex_archived_options
        \<lparr>archived_type := Some ''private'',
         before_option := Some (BOther (DString ''2023-01-01T00:00:00.000Z''))\<rparr>) ex_client =
     Inr (Routes_channelJoinedArchivedThreads ''100000000000000001'',
          makeURLSearchParams (Some 50))"
proof -
  let ?bad = "DString ''yesterday''" and ?good = "DString ''2023-01-01T00:00:00.000Z''"
  let ?o1 = "ex_archived_options\<lparr>before_option := Some (BOther ?bad)\<rparr>"
  let ?o2 = "ex_archived_options
               \<lparr>archived_type := Some ''private'', before_option := Some (BOther ?bad)\<rparr>"
  let ?o3 = "ex_archived_options\<lparr>before_option := Some (BOther ?good)\<rparr>"
  let ?o4 = "ex_archived_options
               \<lparr>archived_type := Some ''private'', before_option := Some (BOther ?good)\<rparr>"
  have n1: "\<not> test_snowflake ?bad" and n2: "\<not> test_snowflake ?good"
    by (simp_all add: snowflake_re_def)
  have d1: "Date_value ex_env ?bad = None" and d2: "Date_value ex_env ?good = Some 1672531200000"
    by (simp_all add: ex_env_def)
  have iso: "toISOString ex_env 1672531200000 = ''2023-01-01T00:00:00.000Z''"
    by (simp add: ex_env_def)
  have b1: "before_option ?o1 = Some (BOther ?bad)" and b2: "before_option ?o2 = Some (BOther ?bad)"
    and b3: "before_option ?o3 = Some (BOther ?good)"
    and b4: "before_option ?o4 = Some (BOther ?good)"
    by simp_all
  from fetchArchived_date_before [OF b1 n1, of ex_env ex_channel True ex_client]
       fetchArchived_date_before [OF b2 n1, of ex_env ex_channel True ex_client]
       fetchArchived_date_before [OF b3 n2, of ex_env ex_channel True ex_client]
       fetchArchived_date_before [OF b4 n2, of ex_env ex_channel True ex_client]
       n1 n2 d1 d2 iso
  show ?thesis
    by (simp add: option_type_def option_fetchAll_def ex_archived_options_def ex_channel_def)
qed

text \<open>
  C8 as stated fails on a number. The number 9000000000000000 is a documented kind of
  \<^verbatim>\<open>before\<close> (a \<^verbatim>\<open>DateResolvable\<close> may be a number), it is neither a thread instance
  nor a string, and it is no valid date, being beyond the range of \<^verbatim>\<open>Date\<close>. Its string
  form has 16 digits, so line 210 takes it for an identifier: nothing is raised, and the
  request is issued without \<^verbatim>\<open>before\<close>.
\<close>

theorem fetchArchived_numeric_before_counterexample:
  "Date_value ex_env (DNumber 9000000000000000) = None \<and>
   fetchArchived_request ex_env ex_channel
     (ex_archived_options\<lparr>before_option := Some (BOther (DNumber 9000000000000000))\<rparr>)
     ex_client =
     Inr (Routes_channelThreads ''100000000000000001'' ''public'',
          makeURLSearchParams (Some 50)) \<and>
   requests
     (snd (fetchArchived ex_env ex_channel
             (ex_archived_options\<lparr>before_option := Some (BOther (DNumber 9000000000000000))\<rparr>)
             True ex_client)) =
     [Get (Routes_channelThreads ''100000000000000001'' ''public'')
        (makeURLSearchParams (Some 50))]"
  by (simp add: fetchArchived_def fa_defs ex_archived_options_def ex_channel_def ex_env_def
      ex_client_def ex_response_def mapThreads_def channels_add_def attach_member_def
      thread_of_raw_def members_add_def ex_thread0_def ex_thread1_def ex_thread2_def
      split: prod.splits)

section \<open>Properties of ThreadManager.fetch\<close>

text \<open>
  C9. Without a selector \<^verbatim>\<open>fetch\<close> is \<^verbatim>\<open>fetchActive\<close>. A selector that resolves to an
  identifier goes to the single-channel fetch with that identifier, whatever its
  \<^verbatim>\<open>archived\<close> property is; one that does not resolve goes to \<^verbatim>\<open>fetchArchived\<close> with
  its \<^verbatim>\<open>archived\<close> options when it has them, and to \<^verbatim>\<open>fetchActive\<close> when it has not.
\<close>

theorem fetch_routing:
  "fetch e ch None fetchOptions st =
     as_threads (fetchActive e ch (option_cache fetchOptions) st) \<and>
   (selector_truthy sel \<and> channels_resolveId st sel = Some c \<and> c \<noteq> [] \<longrightarrow>
      fetch e ch (Some sel) fetchOptions st =
        as_channel
          (channels_fetch e c (option_cache fetchOptions) (option_force fetchOptions) st)) \<and>
   (selector_truthy sel \<and> \<not> truthy_str (channels_resolveId st sel) \<and>
      selector_archived sel = Some archived \<longrightarrow>
      fetch e ch (Some sel) fetchOptions st =
        as_threads (fetchArchived e ch archived (option_cache fetchOptions) st)) \<and>
   (selector_truthy sel \<and> \<not> truthy_str (channels_resolveId st sel) \<and>
      selector_archived sel = None \<longrightarrow>
      fetch e ch (Some sel) fetchOptions st =
        as_threads (fetchActive e ch (option_cache fetchOptions) st))"
  by (cases "channels_resolveId st sel") (simp_all add: fetch_def Let_def)

text \<open>
  An object that is the cached thread 1 and has a truthy \<^verbatim>\<open>archived\<close> property goes to
  the single-channel fetch; options with \<^verbatim>\<open>archived\<close> go to \<^verbatim>\<open>fetchArchived\<close>; options
  without go to \<^verbatim>\<open>fetchActive\<close>.
\<close>

theorem fetch_routing_witness:
  "selector_truthy (SelObject (Some 1) (Some ex_archived_options)) \<and>
   channels_resolveId ex_client (SelObject (Some 1) (Some ex_archived_options)) =
     Some ''222222222222222222'' \<and>
   selector_archived (SelObject (Some 1) (Some ex_archived_options)) = Some ex_archived_options \<and>
   fetch ex_env ex_channel (Some (SelObject (Some 1) (Some ex_archived_options)))
     \<lparr>cache_option = None, force = Some True\<rparr> ex_client =
     as_channel (channels_fetch ex_env ''222222222222222222'' True True ex_client) \<and>
   \<not> truthy_str (channels_resolveId ex_client (SelObject None (Some ex_archived_options))) \<and>
   fetch ex_env ex_channel (Some (SelObject None (Some ex_archived_options)))
     \<lparr>cache_option = None, force = Some True\<rparr> ex_client =
     as_threads (fetchArchived ex_env ex_channel ex_archived_options True ex_client) \<and>
   \<not> truthy_str (channels_resolveId ex_client (SelObject None None)) \<and>
   fetch ex_env ex_channel (Some (SelObject None None))
     \<lparr>cache_option = None, force = Some True\<rparr> ex_client =
     as_threads (fetchActive ex_env ex_channel True ex_client)"
proof -
  let ?fo = "\<lparr>cache_option = None, force = Some True\<rparr>"
  have c: "option_cache ?fo = True" and f: "option_force ?fo = True"
    by (simp_all add: option_cache_def option_force_def)
  have r: "channels_resolveId ex_client (SelObject (Some 1) (Some ex_archived_options)) =
             Some ''222222222222222222''"
    by (simp add: ex_client_def ex_thread1_def)
  from fetch_routing [where sel = "SelObject (Some 1) (Some ex_archived_options)"
         and st = ex_client and c = "''222222222222222222''" and e = ex_env
         and ch = ex_channel and fetchOptions = ?fo]
       fetch_routing [where sel = "SelObject None (Some ex_archived_options)"
         and st = ex_client and archived = ex_archived_options and e = ex_env
         and ch = ex_channel and fetchOptions = ?fo]
       fetch_routing [where sel = "SelObject None None"
         and st = ex_client and e = ex_env and ch = ex_channel and fetchOptions = ?fo]
       r c f
  show ?thesis by simp
qed

section \<open>Properties of the response mapper\<close>

text \<open>
  The channel manager's \<^verbatim>\<open>_add\<close> keeps the client well-formed. It returns a created
  entity that carries the payload's id and, with the \<^verbatim>\<open>cache\<close> flag, the payload's
  parent and a place in the shared cache. Of the objects that existed it changes at
  most the one it returns, and never an id, member data or an entry of the shared cache.
\<close>

lemma set_update_subset: "set (AList.update k v al) \<subseteq> insert (k, v) (set al)"
  by (induction al) auto

lemma wf_client_cached:
  "wf_client st \<Longrightarrow> map_of (channels_cache st) k = Some r \<Longrightarrow>
   r < next_ref st \<and> thread_id (heap st r) = k"
  by (auto simp: wf_client_def dest: map_of_SomeD)

lemma channels_add_wf:
  assumes "channels_add raw c st = (t, st1)" and "wf_client st"
  shows "wf_client st1"
proof (cases "map_of (channels_cache st) (raw_id raw)")
  case None
  with assms show ?thesis
    using set_update_subset [of "raw_id raw" "next_ref st" "channels_cache st"]
    by (fastforce simp: channels_add_def wf_client_def thread_of_raw_def Let_def
        split: if_splits)
next
  case (Some r)
  with assms show ?thesis
    by (auto simp: channels_add_def wf_client_def patch_thread_def split: if_splits)
qed

lemma channels_add_result:
  assumes "channels_add raw c st = (t, st1)" and "wf_client st"
  shows "t < next_ref st1" and "next_ref st \<le> next_ref st1"
    and "thread_id (heap st1 t) = raw_id raw"
    and "c \<Longrightarrow> parentId (heap st1 t) = parent_id raw"
    and "c \<Longrightarrow> map_of (channels_cache st1) (raw_id raw) = Some t"
proof -
  show "t < next_ref st1"
    using assms wf_client_cached [OF assms(2), of "raw_id raw"]
    by (auto simp: channels_add_def Let_def split: option.splits if_splits)
  show "next_ref st \<le> next_ref st1"
    using assms(1) by (auto simp: channels_add_def Let_def split: option.splits if_splits)
  show "thread_id (heap st1 t) = raw_id raw"
    using assms wf_client_cached [OF assms(2), of "raw_id raw"]
    by (auto simp: channels_add_def thread_of_raw_def patch_thread_def Let_def
        split: option.splits if_splits)
  show "c \<Longrightarrow> parentId (heap st1 t) = parent_id raw"
    using assms(1)
    by (auto simp: channels_add_def thread_of_raw_def patch_thread_def Let_def
        split: option.splits)
  show "c \<Longrightarrow> map_of (channels_cache st1) (raw_id raw) = Some t"
    using assms(1)
    by (auto simp: channels_add_def Let_def update_conv' split: option.splits)
qed

lemma channels_add_frame:
  assumes "channels_add raw c st = (t, st1)"
  shows "r < next_ref st \<Longrightarrow> r \<noteq> t \<Longrightarrow> heap st1 r = heap st r"
    and "\<not> c \<Longrightarrow> r < next_ref st \<Longrightarrow> heap st1 r = heap st r"
    and "r < next_ref st \<Longrightarrow> thread_id (heap st1 r) = thread_id (heap st r)"
    and "r < next_ref st \<Longrightarrow> members (heap st1 r) = members (heap st r)"
  using assms
  by (auto simp: channels_add_def patch_thread_def Let_def split: option.splits if_splits)

lemma channels_add_cache:
  assumes "channels_add raw c st = (t, st1)"
  shows "map_of (channels_cache st) i = Some r \<Longrightarrow> map_of (channels_cache st1) i = Some r"
    and "\<not> c \<Longrightarrow> channels_cache st1 = channels_cache st"
    and "requests st1 = requests st"
  using assms
  by (auto simp: channels_add_def Let_def update_conv' split: option.splits if_splits)

text \<open>
  The invariant of the \<^verbatim>\<open>reduce\<close>: every entry of the collection built so far is a
  created entity of the parent, filed under its own id and, with the \<^verbatim>\<open>cache\<close> flag,
  held by the shared cache under that id. With the flag a later payload refreshes an
  entry of the collection, so the invariant needs the payloads still to come to name the
  same parent as the entries they meet.
\<close>

lemma reduce_threads_inv:
  assumes "reduce_threads (Some p) c raws coll st = (coll', st')"
    and "wf_client st"
    and "\<forall>(i, r) \<in> set coll.
           r < next_ref st \<and> parentId (heap st r) = Some (channel_id p) \<and>
           thread_id (heap st r) = i \<and> (c \<longrightarrow> map_of (channels_cache st) i = Some r)"
    and "c \<longrightarrow> (\<forall>x \<in> set raws. \<forall>y \<in> set raws.
                 raw_id x = raw_id y \<longrightarrow> parent_id x = parent_id y)"
    and "c \<longrightarrow> (\<forall>(i, r) \<in> set coll. \<forall>x \<in> set raws.
                 raw_id x = i \<longrightarrow> parent_id x = Some (channel_id p))"
  shows "wf_client st' \<and>
         (\<forall>(i, r) \<in> set coll'.
            r < next_ref st' \<and> parentId (heap st' r) = Some (channel_id p) \<and>
            thread_id (heap st' r) = i)"
  using assms
proof (induction raws arbitrary: coll st)
  case Nil
  then show ?case by auto
next
  case (Cons raw raws)
  obtain t st1 where add: "channels_add raw c st = (t, st1)"
    by (cases "channels_add raw c st")
  note wf1 = channels_add_wf [OF add Cons.prems(2)]
  note res = channels_add_result [OF add Cons.prems(2)]
  note frame = channels_add_frame [OF add]
  note cache = channels_add_cache [OF add]
  have old: "r < next_ref st1 \<and> parentId (heap st1 r) = Some (channel_id p) \<and>
             thread_id (heap st1 r) = i \<and> (c \<longrightarrow> map_of (channels_cache st1) i = Some r)"
    if in_coll: "(i, r) \<in> set coll" for i r
  proof -
    from Cons.prems(3) in_coll
    have r: "r < next_ref st" and par: "parentId (heap st r) = Some (channel_id p)"
      and id: "thread_id (heap st r) = i"
      and cached: "c \<longrightarrow> map_of (channels_cache st) i = Some r"
      by auto
    have "parentId (heap st1 r) = Some (channel_id p)"
    proof (cases "c \<and> r = t")
      case True
      with frame(3) [OF r] id res(3) have "raw_id raw = i" by simp
      moreover have "raw \<in> set (raw # raws)" by simp
      ultimately have "parent_id raw = Some (channel_id p)"
        using Cons.prems(5) True in_coll by blast
      with res(4) True show ?thesis by simp
    next
      case False
      with frame(1,2) [of r] r par show ?thesis by auto
    qed
    with r id cached res(2) frame(3) [OF r] cache(1) show ?thesis by auto
  qed
  have agree_raw: "parent_id x = parent_id raw"
    if "c" and "x \<in> set raws" and "raw_id x = raw_id raw" for x
  proof -
    from that(2) have "x \<in> set (raw # raws)" and "raw \<in> set (raw # raws)" by simp_all
    with Cons.prems(4) that(1,3) show ?thesis by blast
  qed
  have agree: "c \<longrightarrow> (\<forall>x \<in> set raws. \<forall>y \<in> set raws.
                 raw_id x = raw_id y \<longrightarrow> parent_id x = parent_id y)"
  proof (intro impI ballI)
    fix x y
    assume "c" and "x \<in> set raws" and "y \<in> set raws" and "raw_id x = raw_id y"
    moreover then have "x \<in> set (raw # raws)" and "y \<in> set (raw # raws)" by simp_all
    ultimately show "parent_id x = parent_id y" using Cons.prems(4) by blast
  qed
  have keep: "parent_id x = Some (channel_id p)"
    if "c" and "(i, r) \<in> set coll" and "x \<in> set raws" and "raw_id x = i" for i r x
  proof -
    from that(3) have "x \<in> set (raw # raws)" by simp
    with Cons.prems(5) that(1,2,4) show ?thesis by blast
  qed
  show ?case
  proof (cases "parentId (heap st1 t) \<noteq> Some (channel_id p)")
    case True
    with Cons.prems(1) add
    have red: "reduce_threads (Some p) c raws coll st1 = (coll', st')" by simp
    have 3: "\<forall>(i, r) \<in> set coll.
           r < next_ref st1 \<and> parentId (heap st1 r) = Some (channel_id p) \<and>
           thread_id (heap st1 r) = i \<and> (c \<longrightarrow> map_of (channels_cache st1) i = Some r)"
      using old by auto
    have 5: "c \<longrightarrow> (\<forall>(i, r) \<in> set coll. \<forall>x \<in> set raws.
                 raw_id x = i \<longrightarrow> parent_id x = Some (channel_id p))"
      using keep by blast
    from Cons.IH [OF red wf1 3 agree 5] show ?thesis .
  next
    case False
    let ?k = "thread_id (heap st1 t)"
    let ?coll = "AList.update ?k t coll"
    from False Cons.prems(1) add
    have red: "reduce_threads (Some p) c raws ?coll st1 = (coll', st')" by simp
    have sub: "set ?coll \<subseteq> insert (?k, t) (set coll)"
      by (rule set_update_subset)
    have 3: "\<forall>(i, r) \<in> set ?coll.
           r < next_ref st1 \<and> parentId (heap st1 r) = Some (channel_id p) \<and>
           thread_id (heap st1 r) = i \<and> (c \<longrightarrow> map_of (channels_cache st1) i = Some r)"
    proof (clarify)
      fix i r
      assume "(i, r) \<in> set ?coll"
      with sub have "(i, r) = (?k, t) \<or> (i, r) \<in> set coll" by blast
      then show "r < next_ref st1 \<and> parentId (heap st1 r) = Some (channel_id p) \<and>
           thread_id (heap st1 r) = i \<and> (c \<longrightarrow> map_of (channels_cache st1) i = Some r)"
      proof
        assume "(i, r) = (?k, t)"
        with False res(1,3,5) show ?thesis by simp
      next
        assume "(i, r) \<in> set coll"
        then show ?thesis by (rule old)
      qed
    qed
    have new: "parent_id x = Some (channel_id p)"
      if "c" and "x \<in> set raws" and "raw_id x = ?k" for x
    proof -
      from that res(3) have "parent_id x = parent_id raw" by (simp add: agree_raw)
      with res(4) [OF \<open>c\<close>] False show ?thesis by simp
    qed
    have keep_new: "parent_id x = Some (channel_id p)"
      if c: "c" and in_new: "(i, r) \<in> set ?coll" and x: "x \<in> set raws"
        and i: "raw_id x = i" for i r x
    proof -
      from in_new sub have "(i, r) = (?k, t) \<or> (i, r) \<in> set coll" by blast
      then show ?thesis
      proof
        assume "(i, r) = (?k, t)"
        with i new [OF c x] show ?thesis by simp
      next
        assume "(i, r) \<in> set coll"
        from keep [OF c this x i] show ?thesis .
      qed
    qed
    have 5: "c \<longrightarrow> (\<forall>(i, r) \<in> set ?coll. \<forall>x \<in> set raws.
                 raw_id x = i \<longrightarrow> parent_id x = Some (channel_id p))"
      using keep_new by blast
    from Cons.IH [OF red wf1 3 agree 5] show ?thesis .
  qed
qed

text \<open>
  With the \<^verbatim>\<open>cache\<close> flag the filter reads the parent the payload has just given the
  entity, so every new key is the id of a payload under the parent.
\<close>

lemma reduce_threads_keys:
  assumes "reduce_threads (Some p) True raws coll st = (coll', st')"
    and "wf_client st"
  shows "fst ` set coll' \<subseteq>
           fst ` set coll \<union> {raw_id x | x. x \<in> set raws \<and> parent_id x = Some (channel_id p)}"
  using assms
proof (induction raws arbitrary: coll st)
  case Nil
  then show ?case by simp
next
  case (Cons raw raws)
  obtain t st1 where add: "channels_add raw True st = (t, st1)"
    by (cases "channels_add raw True st")
  note wf1 = channels_add_wf [OF add Cons.prems(2)]
  note res = channels_add_result [OF add Cons.prems(2)]
  show ?case
  proof (cases "parentId (heap st1 t) \<noteq> Some (channel_id p)")
    case True
    with Cons.prems(1) add
    have "reduce_threads (Some p) True raws coll st1 = (coll', st')" by simp
    from Cons.IH [OF this wf1] show ?thesis by auto
  next
    case False
    with Cons.prems(1) add
    have "reduce_threads (Some p) True raws
            (AList.update (thread_id (heap st1 t)) t coll) st1 = (coll', st')"
      by simp
    from Cons.IH [OF this wf1] False res(3,4) show ?thesis
      by (auto simp: dom_update)
  qed
qed

lemma reduce_threads_wf:
  assumes "reduce_threads parent c raws coll st = (coll', st')" and "wf_client st"
  shows "wf_client st'"
  using assms
proof (induction raws arbitrary: coll st)
  case Nil
  then show ?case by simp
next
  case (Cons raw raws)
  obtain t st1 where add: "channels_add raw c st = (t, st1)"
    by (cases "channels_add raw c st")
  from Cons.prems(1) add Cons.IH [OF _ channels_add_wf [OF add Cons.prems(2)]]
  show ?case by (auto split: if_splits)
qed

lemma reduce_threads_cache:
  assumes "reduce_threads parent c raws coll st = (coll', st')"
  shows "map_of (channels_cache st) i = Some r \<Longrightarrow> map_of (channels_cache st') i = Some r"
    and "\<not> c \<Longrightarrow> channels_cache st' = channels_cache st"
    and "requests st' = requests st"
  using assms
proof (induction raws arbitrary: coll st)
  case Nil
  { case 1 then show ?case by simp
  next case 2 then show ?case by simp
  next case 3 then show ?case by simp }
next
  case (Cons raw raws)
  { case 1
    obtain t st1 where add: "channels_add raw c st = (t, st1)"
      by (cases "channels_add raw c st")
    from channels_add_cache(1) [OF add 1(1)] Cons(1) 1(2) add show ?case
      by (auto split: if_splits)
  next
    case 2
    obtain t st1 where add: "channels_add raw c st = (t, st1)"
      by (cases "channels_add raw c st")
    from channels_add_cache(2) [OF add 2(1)] Cons(2) 2 add show ?case
      by (auto split: if_splits)
  next
    case 3
    obtain t st1 where add: "channels_add raw c st = (t, st1)"
      by (cases "channels_add raw c st")
    from channels_add_cache(3) [OF add] Cons(3) 3 add show ?case
      by (auto split: if_splits)
  }
qed

text \<open>
  The member loop changes nothing but the \<open>members\<close> of objects, and gives an object
  exactly the payloads whose id the shared cache maps to it.
\<close>

lemma attach_member_heap:
  "heap (attach_member m st) r =
     (heap st r)\<lparr>members :=
        members (heap st r) @
        filter (\<lambda>m. map_of (channels_cache st) (member_id m) = Some r) [m]\<rparr>"
  by (simp add: attach_member_def members_add_def split: option.splits)

lemma attach_member_frame:
  "channels_cache (attach_member m st) = channels_cache st"
  "next_ref (attach_member m st) = next_ref st"
  "threads_cache (attach_member m st) = threads_cache st"
  "requests (attach_member m st) = requests st"
  by (simp_all add: attach_member_def split: option.splits)

lemma attach_members_frame:
  "channels_cache (attach_members ms st) = channels_cache st"
  "next_ref (attach_members ms st) = next_ref st"
  "threads_cache (attach_members ms st) = threads_cache st"
  "requests (attach_members ms st) = requests st"
  by (induction ms arbitrary: st) (simp_all add: attach_member_frame)

lemma attach_members_heap:
  "heap (attach_members ms st) r =
     (heap st r)\<lparr>members :=
        members (heap st r) @
        filter (\<lambda>m. map_of (channels_cache st) (member_id m) = Some r) ms\<rparr>"
proof (induction ms arbitrary: st)
  case Nil
  show ?case by simp
next
  case (Cons m ms)
  show ?case
    by (simp add: Cons.IH attach_member_heap attach_member_frame)
qed

lemma mapThreads_requests:
  "mapThreads rawThreads parent c st = (res, st') \<Longrightarrow> requests st' = requests st"
  by (auto simp: mapThreads_def attach_members_frame split: prod.splits
      dest: reduce_threads_cache(3))

lemma fetchArchived_sends:
  "fetchArchived_request e ch opts st = Inr (path, q) \<Longrightarrow>
   requests (snd (fetchArchived e ch opts c st)) = requests st @ [Get path q]"
  by (auto simp: fetchArchived_def Let_def split: sum.splits prod.splits
      dest: mapThreads_requests)

lemma reduce_threads_filtered:
  assumes "reduce_threads (Some p) c raws [] st = (coll, st1)"
    and "wf_client st"
    and "c \<longrightarrow> (\<forall>x \<in> set raws. \<forall>y \<in> set raws.
                 raw_id x = raw_id y \<longrightarrow> parent_id x = parent_id y)"
  shows "\<forall>(i, r) \<in> set coll.
           parentId (heap st1 r) = Some (channel_id p) \<and> thread_id (heap st1 r) = i"
  using reduce_threads_inv [OF assms(1,2) _ assms(3)] by auto

lemmas mt_defs = mapThreads_def channels_add_def thread_of_raw_def patch_thread_def
  attach_member_def members_add_def Let_def

lemmas ex_mt_defs = ex_response_def ex_response_twice_def ex_response_moved_def ex_client_def
  ex_channel_def ex_thread0_def ex_thread1_def ex_thread2_def

lemma wf_ex_client: "wf_client ex_client"
  by (simp add: wf_client_def ex_client_def ex_thread0_def ex_thread1_def)

text \<open>
  C7, as the code has it. In a well-formed client, let a raw response be mapped with a
  parent scope, and, when the \<^verbatim>\<open>cache\<close> flag is set, let thread payloads with the same
  id name the same parent. Then every entry of the returned collection is an entity
  whose \<^verbatim>\<open>parentId\<close> is the parent's id, filed under its own id; an entity whose
  \<^verbatim>\<open>parentId\<close> differs from the parent's id is not among the returned entities; and
  with the \<^verbatim>\<open>cache\<close> flag no payload under another parent has its id among the
  returned keys.
\<close>

theorem mapThreads_parent_filter:
  assumes "wf_client st"
    and "c \<longrightarrow> (\<forall>x \<in> set (raw_threads rawThreads). \<forall>y \<in> set (raw_threads rawThreads).
                 raw_id x = raw_id y \<longrightarrow> parent_id x = parent_id y)"
    and "mapThreads rawThreads (Some p) c st = (res, st')"
  shows "(\<forall>(i, r) \<in> set (threads res).
            parentId (heap st' r) = Some (channel_id p) \<and> thread_id (heap st' r) = i) \<and>
         (\<forall>r. parentId (heap st' r) \<noteq> Some (channel_id p) \<longrightarrow> r \<notin> snd ` set (threads res)) \<and>
         (c \<longrightarrow> (\<forall>x \<in> set (raw_threads rawThreads).
                  parent_id x \<noteq> Some (channel_id p) \<longrightarrow> raw_id x \<notin> fst ` set (threads res)))"
proof -
  obtain coll st1 where
    red: "reduce_threads (Some p) c (raw_threads rawThreads) [] st = (coll, st1)"
    by (cases "reduce_threads (Some p) c (raw_threads rawThreads) [] st")
  with assms(3) have res: "threads res = coll"
    and st': "st' = attach_members (raw_members rawThreads) st1"
    by (auto simp: mapThreads_def)
  from reduce_threads_filtered [OF red assms(1,2)]
  have 1: "\<forall>(i, r) \<in> set (threads res).
      parentId (heap st' r) = Some (channel_id p) \<and> thread_id (heap st' r) = i"
    by (auto simp: res st' attach_members_heap)
  then have 2: "\<forall>r. parentId (heap st' r) \<noteq> Some (channel_id p) \<longrightarrow>
      r \<notin> snd ` set (threads res)"
    by fastforce
  have 3: "raw_id x \<notin> fst ` set (threads res)"
    if c: "c" and x: "x \<in> set (raw_threads rawThreads)"
      and other: "parent_id x \<noteq> Some (channel_id p)" for x
  proof
    assume "raw_id x \<in> fst ` set (threads res)"
    with reduce_threads_keys [OF red [unfolded c [THEN eqTrueI]] assms(1)] res
    obtain y where "y \<in> set (raw_threads rawThreads)" and "raw_id y = raw_id x"
      and "parent_id y = Some (channel_id p)"
      by auto
    with assms(2) c x have "parent_id x = Some (channel_id p)" by metis
    with other show False by simp
  qed
  from 1 2 3 show ?thesis by blast
qed

text \<open>
  The example response has two thread payloads, one under the example channel and one
  under another channel: the result holds exactly the first. The response that names
  the cached thread 1 under the example channel refreshes it, and the result holds it.
\<close>

theorem mapThreads_parent_filter_witness:
  "wf_client ex_client \<and>
   threads (fst (mapThreads ex_response (Some ex_channel) True ex_client)) =
     [(''333333333333333333'', 3)] \<and>
   parentId (heap (snd (mapThreads ex_response (Some ex_channel) True ex_client)) 3) =
     Some (channel_id ex_channel) \<and>
   thread_id (heap (snd (mapThreads ex_response (Some ex_channel) True ex_client)) 3) =
     ''333333333333333333'' \<and>
   parentId (heap (snd (mapThreads ex_response (Some ex_channel) True ex_client)) 1) =
     Some ''100000000000000002'' \<and>
   1 \<notin> snd ` set (threads (fst (mapThreads ex_response (Some ex_channel) True ex_client))) \<and>
   ''222222222222222222''
     \<notin> fst ` set (threads (fst (mapThreads ex_response (Some ex_channel) True ex_client))) \<and>
   threads (fst (mapThreads ex_response_moved (Some ex_channel) True ex_client)) =
     [(''222222222222222222'', 1)] \<and>
   parentId (heap (snd (mapThreads ex_response_moved (Some ex_channel) True ex_client)) 1) =
     Some (channel_id ex_channel)"
proof -
  obtain res st' where eq: "mapThreads ex_response (Some ex_channel) True ex_client = (res, st')"
    by (cases "mapThreads ex_response (Some ex_channel) True ex_client")
  obtain resM stM where
    eqM: "mapThreads ex_response_moved (Some ex_channel) True ex_client = (resM, stM)"
    by (cases "mapThreads ex_response_moved (Some ex_channel) True ex_client")
  have agree: "True \<longrightarrow> (\<forall>x \<in> set (raw_threads ex_response). \<forall>y \<in> set (raw_threads ex_response).
                 raw_id x = raw_id y \<longrightarrow> parent_id x = parent_id y)"
    by (simp add: ex_response_def)
  have agreeM: "True \<longrightarrow> (\<forall>x \<in> set (raw_threads ex_response_moved).
                 \<forall>y \<in> set (raw_threads ex_response_moved).
                 raw_id x = raw_id y \<longrightarrow> parent_id x = parent_id y)"
    by (simp add: ex_response_moved_def)
  from eq have thr: "threads res = [(''333333333333333333'', 3)]"
    and one: "parentId (heap st' 1) = Some ''100000000000000002''"
    by (auto simp: mt_defs ex_mt_defs)
  from eqM have thrM: "threads resM = [(''222222222222222222'', 1)]"
    by (auto simp: mt_defs ex_mt_defs)
  have raws: "\<lparr>raw_id = ''222222222222222222'', parent_id = Some ''100000000000000002'',
               archive_timestamp = Some 1672531200000\<rparr> \<in> set (raw_threads ex_response)"
    by (simp add: ex_response_def)
  from mapThreads_parent_filter [OF wf_ex_client agree eq] thr one raws
  have "parentId (heap st' 3) = Some (channel_id ex_channel) \<and>
        thread_id (heap st' 3) = ''333333333333333333'' \<and> 1 \<notin> snd ` set (threads res) \<and>
        ''222222222222222222'' \<notin> fst ` set (threads res)"
    by (simp add: ex_channel_def)
  moreover from mapThreads_parent_filter [OF wf_ex_client agreeM eqM] thrM
  have "parentId (heap stM 1) = Some (channel_id ex_channel)"
    by simp
  ultimately show ?thesis using eq eqM thr thrM one wf_ex_client by simp
qed

text \<open>
  C7 as stated fails on a response that names one thread twice. The first payload puts
  thread 3 under the example channel, so the filter lets it into the collection; the
  second payload refreshes the same cached entity to another channel, and the filter
  keeps a collection that still holds it.
\<close>

theorem mapThreads_refreshed_twice_counterexample:
  "wf_client ex_client \<and>
   channel_id ex_channel = ''100000000000000001'' \<and>
   threads (fst (mapThreads ex_response_twice (Some ex_channel) True ex_client)) =
     [(''333333333333333333'', 3)] \<and>
   parentId (heap (snd (mapThreads ex_response_twice (Some ex_channel) True ex_client)) 3) =
     Some ''100000000000000002''"
proof (intro conjI)
  show "wf_client ex_client" by (rule wf_ex_client)
qed (simp_all add: mt_defs ex_mt_defs)

text \<open>
  C10. Let \<open>st1\<close> be the client after the \<^verbatim>\<open>reduce\<close> of \<^verbatim>\<open>_mapThreads\<close>. The member
  loop gives every object exactly the membership payloads whose id the client-wide
  channel cache of \<open>st1\<close> maps to that object, and changes nothing else; the returned
  collection plays no part. So payloads whose ids the cache does not know change
  nothing and raise nothing; without the \<^verbatim>\<open>cache\<close> flag the cache is the one from
  before the call, whatever the returned collection holds; and a payload whose id the
  cache maps to a thread that the filter found under another parent is attached to
  that thread, which is not among the returned entities (thread payloads with the same
  id naming the same parent when the \<^verbatim>\<open>cache\<close> flag is set).
\<close>

theorem mapThreads_members_via_channel_cache:
  assumes "reduce_threads parent c (raw_threads rawThreads) [] st = (coll, st1)"
    and "mapThreads rawThreads parent c st = (res, st')"
  shows "(\<forall>r. heap st' r =
            (heap st1 r)\<lparr>members :=
               members (heap st1 r) @
               filter (\<lambda>m. map_of (channels_cache st1) (member_id m) = Some r)
                 (raw_members rawThreads)\<rparr>) \<and>
         ((\<forall>m \<in> set (raw_members rawThreads).
             map_of (channels_cache st1) (member_id m) = None) \<longrightarrow> heap st' = heap st1) \<and>
         (\<not> c \<longrightarrow> channels_cache st1 = channels_cache st) \<and>
         (\<forall>p m r. wf_client st \<and> parent = Some p \<and>
            (c \<longrightarrow> (\<forall>x \<in> set (raw_threads rawThreads). \<forall>y \<in> set (raw_threads rawThreads).
                     raw_id x = raw_id y \<longrightarrow> parent_id x = parent_id y)) \<and>
            m \<in> set (raw_members rawThreads) \<and>
            map_of (channels_cache st) (member_id m) = Some r \<and>
            parentId (heap st1 r) \<noteq> Some (channel_id p) \<longrightarrow>
            r \<notin> snd ` set (threads res) \<and> m \<in> set (members (heap st' r)))"
proof -
  from assms have res: "threads res = coll"
    and st': "st' = attach_members (raw_members rawThreads) st1"
    by (auto simp: mapThreads_def)
  have A: "\<forall>r. heap st' r =
            (heap st1 r)\<lparr>members :=
               members (heap st1 r) @
               filter (\<lambda>m. map_of (channels_cache st1) (member_id m) = Some r)
                 (raw_members rawThreads)\<rparr>"
    by (simp add: st' attach_members_heap)
  have B: "(\<forall>m \<in> set (raw_members rawThreads).
             map_of (channels_cache st1) (member_id m) = None) \<longrightarrow> heap st' = heap st1"
  proof
    assume none: "\<forall>m \<in> set (raw_members rawThreads).
             map_of (channels_cache st1) (member_id m) = None"
    have "filter (\<lambda>m. map_of (channels_cache st1) (member_id m) = Some r)
            (raw_members rawThreads) = []" for r
      using none by (auto simp: filter_empty_conv)
    with A show "heap st' = heap st1" by (intro ext) simp
  qed
  have C: "\<not> c \<longrightarrow> channels_cache st1 = channels_cache st"
    using reduce_threads_cache(2) [OF assms(1)] by simp
  have D: "r \<notin> snd ` set (threads res) \<and> m \<in> set (members (heap st' r))"
    if wf: "wf_client st" and par: "parent = Some p"
      and agree: "c \<longrightarrow> (\<forall>x \<in> set (raw_threads rawThreads).
                     \<forall>y \<in> set (raw_threads rawThreads).
                     raw_id x = raw_id y \<longrightarrow> parent_id x = parent_id y)"
      and m: "m \<in> set (raw_members rawThreads)"
      and cached: "map_of (channels_cache st) (member_id m) = Some r"
      and other: "parentId (heap st1 r) \<noteq> Some (channel_id p)" for p m r
  proof
    from assms(1) par
    have red: "reduce_threads (Some p) c (raw_threads rawThreads) [] st = (coll, st1)" by simp
    from reduce_threads_filtered [OF red wf agree] other
    show "r \<notin> snd ` set (threads res)"
      by (auto simp: res)
    from reduce_threads_cache(1) [OF assms(1) cached] m A
    show "m \<in> set (members (heap st' r))" by simp
  qed
  from A B C D show ?thesis by blast
qed

text \<open>
  In the example the payload for thread 1, a cached thread of another channel, is
  attached to it though the result leaves it out, and the payload for thread 3, which
  the call creates and caches, is attached too. Without the \<^verbatim>\<open>cache\<close> flag, and with
  the payloads for the uncached ids only, the result still holds thread 3, but the
  member loop changes nothing.
\<close>

theorem mapThreads_members_via_channel_cache_witness:
  "wf_client ex_client \<and>
   \<lparr>member_id = ''222222222222222222'', user_id = ''900000000000000009''\<rparr>
     \<in> set (raw_members ex_response) \<and>
   map_of (channels_cache ex_client) ''222222222222222222'' = Some 1 \<and>
   parentId
     (heap (snd (reduce_threads (Some ex_channel) True (raw_threads ex_response) [] ex_client))
        1) \<noteq> Some (channel_id ex_channel) \<and>
   1 \<notin> snd ` set (threads (fst (mapThreads ex_response (Some ex_channel) True ex_client))) \<and>
   \<lparr>member_id = ''222222222222222222'', user_id = ''900000000000000009''\<rparr>
     \<in> set (members (heap (snd (mapThreads ex_response (Some ex_channel) True ex_client)) 1)) \<and>
   members (heap (snd (mapThreads ex_response (Some ex_channel) True ex_client)) 3) =
     [\<lparr>member_id = ''333333333333333333'', user_id = ''900000000000000009''\<rparr>] \<and>
   map_of (channels_cache ex_client) ''333333333333333333'' = None \<and>
   map_of (channels_cache ex_client) ''444444444444444444'' = None \<and>
   threads (fst (mapThreads (ex_response\<lparr>raw_members := tl (raw_members ex_response)\<rparr>)
                  (Some ex_channel) False ex_client)) =
     [(''333333333333333333'', 3)] \<and>
   heap (snd (mapThreads (ex_response\<lparr>raw_members := tl (raw_members ex_response)\<rparr>)
                (Some ex_channel) False ex_client)) =
     heap (snd (reduce_threads (Some ex_channel) False (raw_threads ex_response) [] ex_client)) \<and>
   members (heap (snd (mapThreads (ex_response\<lparr>raw_members := tl (raw_members ex_response)\<rparr>)
                         (Some ex_channel) False ex_client)) 3) = []"
proof -
  let ?m = "\<lparr>member_id = ''222222222222222222'', user_id = ''900000000000000009''\<rparr>"
  let ?raw = "ex_response\<lparr>raw_members := tl (raw_members ex_response)\<rparr>"
  obtain collT stT where
    redT: "reduce_threads (Some ex_channel) True (raw_threads ex_response) [] ex_client =
             (collT, stT)"
    by (cases "reduce_threads (Some ex_channel) True (raw_threads ex_response) [] ex_client")
  obtain collF stF where
    redF: "reduce_threads (Some ex_channel) False (raw_threads ?raw) [] ex_client =
             (collF, stF)"
    by (cases "reduce_threads (Some ex_channel) False (raw_threads ?raw) [] ex_client")
  obtain resT stT' where
    eqT: "mapThreads ex_response (Some ex_channel) True ex_client = (resT, stT')"
    by (cases "mapThreads ex_response (Some ex_channel) True ex_client")
  obtain resF stF' where
    eqF: "mapThreads ?raw (Some ex_channel) False ex_client = (resF, stF')"
    by (cases "mapThreads ?raw (Some ex_channel) False ex_client")
  have m: "?m \<in> set (raw_members ex_response)"
    by (simp add: ex_response_def)
  have cached: "map_of (channels_cache ex_client) (member_id ?m) = Some 1"
    by (simp add: ex_client_def)
  have uncached: "map_of (channels_cache ex_client) ''333333333333333333'' = None"
    "map_of (channels_cache ex_client) ''444444444444444444'' = None"
    by (simp_all add: ex_client_def)
  have agree: "True \<longrightarrow> (\<forall>x \<in> set (raw_threads ex_response). \<forall>y \<in> set (raw_threads ex_response).
                 raw_id x = raw_id y \<longrightarrow> parent_id x = parent_id y)"
    by (simp add: ex_response_def)
  from redT have cacheT: "channels_cache stT =
      [(''111111111111111111'', 0), (''222222222222222222'', 1), (''333333333333333333'', 3)]"
    and heapT: "members (heap stT 3) = []"
    and other: "parentId (heap stT 1) \<noteq> Some (channel_id ex_channel)"
    by (auto simp: mt_defs ex_mt_defs)
  from redF have heapF: "members (heap stF 3) = []"
    by (auto simp: mt_defs ex_mt_defs)
  from eqF redF have thrF: "threads resF = [(''333333333333333333'', 3)]"
    by (auto simp: mt_defs ex_mt_defs)
  note T = mapThreads_members_via_channel_cache [OF redT eqT]
  note F = mapThreads_members_via_channel_cache [OF redF eqF]
  from T wf_ex_client m cached other agree
  have 1: "1 \<notin> snd ` set (threads resT) \<and> ?m \<in> set (members (heap stT' 1))"
    by blast
  from T cacheT heapT
  have 2: "members (heap stT' 3) =
             [\<lparr>member_id = ''333333333333333333'', user_id = ''900000000000000009''\<rparr>]"
    by (simp add: ex_response_def)
  from F have same: "channels_cache stF = channels_cache ex_client" by simp
  have "\<forall>m \<in> set (raw_members ?raw). map_of (channels_cache stF) (member_id m) = None"
    by (simp add: same ex_response_def ex_client_def)
  with F have 3: "heap stF' = heap stF" by blast
  from redF have 4: "stF = snd (reduce_threads (Some ex_channel) False (raw_threads ex_response)
                           [] ex_client)"
    by simp
  from redT have 5: "stT = snd (reduce_threads (Some ex_channel) True (raw_threads ex_response)
                           [] ex_client)"
    by simp
  from 1 2 3 4 5 heapF thrF eqT eqF wf_ex_client m cached uncached other show ?thesis by simp
qed

end
